theory Spec2Isabelle
  imports Main "HOL-Library.Sublist"
begin

section \<open>JavaScript strings\<close>

text \<open>
  A JavaScript string is a sequence of UTF-16 code units. Here a string is a
  \<open>char list\<close> and one \<open>char\<close> stands for one code unit below 256 (the Latin-1 range);
  strings holding larger code units are outside the model.

  \<open>String.prototype.trim\<close> removes white space and line terminators from both ends.
  Of the code units below 256 these are TAB, LF, VT, FF, CR, SPACE and NO-BREAK SPACE.
\<close>

definition is_white_space :: "char \<Rightarrow> bool" where
  "is_white_space c =
     (c \<in> set [CHR 0x09, CHR 0x0A, CHR 0x0B, CHR 0x0C, CHR 0x0D, CHR 0x20, CHR 0xA0])"

definition trim :: "string \<Rightarrow> string" where
  "trim s = rev (dropWhile is_white_space (rev (dropWhile is_white_space s)))"

text \<open>\<open>Array.prototype.join\<close> on an array of strings.\<close>

fun join :: "string \<Rightarrow> string list \<Rightarrow> string" where
  "join sep [] = []"
| "join sep [x] = x"
| "join sep (x # y # ys) = x @ sep @ join sep (y # ys)"

text \<open>
  The truth value of an optional string in a condition (\<open>if (status)\<close>): \<open>undefined\<close> and
  the empty string are falsy, every other string is truthy.
\<close>

fun truthy :: "string option \<Rightarrow> bool" where
  "truthy None = False"
| "truthy (Some s) = (s \<noteq> [])"

text \<open>Optional chaining \<open>v?.trim()\<close>: \<open>undefined\<close> stays \<open>undefined\<close>.\<close>

definition opt_trim :: "string option \<Rightarrow> string option" where
  "opt_trim v = (case v of None \<Rightarrow> None | Some s \<Rightarrow> Some (trim s))"

section \<open>JavaScript numbers\<close>

text \<open>
  A JavaScript number is a double. Every integer of magnitude below \<open>2^53\<close> is a double
  and is printed in plain decimal: these are the values of \<open>safe_integer\<close>, and
  \<open>Integer i\<close> is the number of that value. Every other number (a fraction such as 2.5,
  an integer of larger magnitude, which a double may hold only rounded) is
  \<open>Inexact s\<close>, given by the text \<open>s\<close> that JavaScript prints for it; how that text is
  computed is not modelled.
\<close>

typedef safe_integer = "{i :: int. \<bar>i\<bar> < 9007199254740992}"
  by (rule exI [of _ 0]) simp

datatype number = Integer safe_integer | Inexact string

fun dec :: "nat \<Rightarrow> string" where
  "dec n = (if n < 10 then [''0123456789'' ! n]
            else dec (n div 10) @ [''0123456789'' ! (n mod 10)])"

declare dec.simps [simp del]

text \<open>The text of a number inside a template literal.\<close>

fun number_to_string :: "number \<Rightarrow> string" where
  "number_to_string (Integer i) =
     (if Rep_safe_integer i < 0 then ''-'' @ dec (nat (- Rep_safe_integer i))
      else dec (nat (Rep_safe_integer i)))"
| "number_to_string (Inexact s) = s"

section \<open>The Jira query\<close>

text \<open>
  The arguments of \<open>get-jira-issues\<close> after schema validation: \<open>project\<close> is a string,
  the filters are optional strings and \<open>limit\<close> is an optional number.
\<close>

record jira_args =
  project :: string
  status :: "string option"
  summary :: "string option"
  label :: "string option"
  assignee :: "string option"
  issueType :: "string option"
  limit :: "number option"

text \<open>
  \<^verbatim>\<open>
  const jqlParts = [];
  jqlParts.push(`project=${project}`);
  if (status) jqlParts.push(`status="${status}"`);
  if (summary) jqlParts.push(`summary~"${summary}"`);
  if (label) jqlParts.push(`labels="${label}"`);
  if (assignee) jqlParts.push(`assignee="${assignee}"`);
  if (issueType) jqlParts.push(`issuetype="${issueType}"`);
  const jql = jqlParts.join(" AND ");
  const maxResults = limit ?? 5;
  \<close>
\<close>

definition jqlParts :: "jira_args \<Rightarrow> string list" where
  "jqlParts a =
     (let parts = [];
          parts = parts @ [''project='' @ project a];
          parts = (if truthy (status a)
                   then parts @ [''status=\"'' @ the (status a) @ ''\"''] else parts);
          parts = (if truthy (summary a)
                   then parts @ [''summary~\"'' @ the (summary a) @ ''\"''] else parts);
          parts = (if truthy (label a)
                   then parts @ [''labels=\"'' @ the (label a) @ ''\"''] else parts);
          parts = (if truthy (assignee a)
                   then parts @ [''assignee=\"'' @ the (assignee a) @ ''\"''] else parts);
          parts = (if truthy (issueType a)
                   then parts @ [''issuetype=\"'' @ the (issueType a) @ ''\"''] else parts)
      in parts)"

definition jql :: "jira_args \<Rightarrow> string" where
  "jql a = join '' AND '' (jqlParts a)"

definition maxResults :: "jira_args \<Rightarrow> number" where
  "maxResults a = (case jira_args.limit a of None \<Rightarrow> Integer (Abs_safe_integer 5) | Some n \<Rightarrow> n)"

section \<open>The ServiceNow query\<close>

record sn_params =
  assigned_to :: "string option"
  state :: "string option"
  priority :: "string option"
  short_description :: "string option"
  limit :: "number option"

text \<open>
  \<^verbatim>\<open>
  const queryParts: string[] = [];
  if (params.assigned_to?.trim()) queryParts.push(`assigned_to=${params.assigned_to.trim()}`);
  if (params.state?.trim()) queryParts.push(`state=${params.state.trim()}`);
  if (params.priority?.trim()) queryParts.push(`priority=${params.priority.trim()}`);
  if (params.short_description?.trim())
    queryParts.push(`short_descriptionLIKE${params.short_description.trim()}`);
  const sysparm_query = queryParts.join("^");
  const sysparm_limit = params.limit ?? 5;
  \<close>
\<close>

definition queryParts :: "sn_params \<Rightarrow> string list" where
  "queryParts p =
     (let parts = [];
          parts = (if truthy (opt_trim (assigned_to p))
                   then parts @ [''assigned_to='' @ trim (the (assigned_to p))] else parts);
          parts = (if truthy (opt_trim (state p))
                   then parts @ [''state='' @ trim (the (state p))] else parts);
          parts = (if truthy (opt_trim (priority p))
                   then parts @ [''priority='' @ trim (the (priority p))] else parts);
          parts = (if truthy (opt_trim (short_description p))
                   then parts @ [''short_descriptionLIKE'' @ trim (the (short_description p))]
                   else parts)
      in parts)"

definition sysparm_query :: "sn_params \<Rightarrow> string" where
  "sysparm_query p = join ''^'' (queryParts p)"

definition sysparm_limit :: "sn_params \<Rightarrow> number" where
  "sysparm_limit p = (case sn_params.limit p of None \<Rightarrow> Integer (Abs_safe_integer 5) | Some n \<Rightarrow> n)"

section \<open>URL encoding\<close>

text \<open>
  \<open>encodeURIComponent\<close> keeps the letters, the digits and \<open>- _ . ! ~ * ' ( )\<close>, and
  writes every other code unit as the percent-escaped bytes of its UTF-8 encoding:
  one byte below 128, two bytes from 128 to 255.
\<close>

definition unreserved :: "char \<Rightarrow> bool" where
  "unreserved c =
     (c \<in> set (''ABCDEFGHIJKLMNOPQRSTUVWXYZabcdefghijklmnopqrstuvwxyz0123456789-_.!~*()''
               @ [CHR 0x27]))"

definition pct :: "nat \<Rightarrow> string" where
  "pct n = [CHR ''%'', ''0123456789ABCDEF'' ! (n div 16), ''0123456789ABCDEF'' ! (n mod 16)]"

definition encode_unit :: "char \<Rightarrow> string" where
  "encode_unit c =
     (let n = (of_char c :: nat) in
      if unreserved c then [c]
      else if n < 128 then pct n
      else pct (192 + n div 64) @ pct (128 + n mod 64))"

definition encodeURIComponent :: "string \<Rightarrow> string" where
  "encodeURIComponent s = concat (map encode_unit s)"

section \<open>JSON values and errors\<close>

text \<open>
  The value \<open>response.json()\<close> yields. A JavaScript value that may be \<open>undefined\<close> is a
  \<open>json option\<close> with \<open>None\<close> for \<open>undefined\<close>. An object is the list of its own
  properties, each key once.
\<close>

datatype json =
    JNull
  | JBool bool
  | JNum number
  | JStr string
  | JArr "json list"
  | JObj "(string \<times> json) list"

text \<open>
  What a handler can throw: \<open>InvalidParams\<close> is the rejection of the arguments by the
  tool's schema, \<open>FetchFailed\<close> a rejected \<open>fetch\<close>, \<open>SyntaxError\<close> a body that is not
  JSON, \<open>TypeError\<close> a property read on \<open>null\<close> or \<open>undefined\<close> or a call of something
  that is not a function, and \<open>Error msg\<close> is \<open>throw new Error(msg)\<close>.
\<close>

datatype error = InvalidParams | FetchFailed | SyntaxError | TypeError | Error string

definition and_then :: "error + 'a \<Rightarrow> ('a \<Rightarrow> error + 'b) \<Rightarrow> error + 'b" where
  "and_then r f = (case r of Inl e \<Rightarrow> Inl e | Inr v \<Rightarrow> f v)"

fun map_result :: "('a \<Rightarrow> error + 'b) \<Rightarrow> 'a list \<Rightarrow> error + 'b list" where
  "map_result f [] = Inr []"
| "map_result f (x # xs) =
     and_then (f x) (\<lambda>y. and_then (map_result f xs) (\<lambda>ys. Inr (y # ys)))"

text \<open>
  Reading the property \<open>k\<close> of a value (\<open>v.k\<close>): it throws on \<open>undefined\<close> and on \<open>null\<close>,
  looks the key up in an object, and is \<open>undefined\<close> on every other value. (None of the
  property names the handlers read is a built-in property of strings, numbers,
  booleans or arrays.)
\<close>

fun get_prop :: "json option \<Rightarrow> string \<Rightarrow> error + json option" where
  "get_prop None k = Inl TypeError"
| "get_prop (Some JNull) k = Inl TypeError"
| "get_prop (Some (JObj ps)) k = Inr (map_of ps k)"
| "get_prop (Some v) k = Inr None"

text \<open>
  The string a value becomes inside a template literal. An array prints its elements
  joined by commas, with \<open>null\<close> elements printed as the empty string.
\<close>

fun to_string :: "json \<Rightarrow> string" where
  "to_string JNull = ''null''"
| "to_string (JBool b) = (if b then ''true'' else ''false'')"
| "to_string (JNum n) = number_to_string n"
| "to_string (JStr s) = s"
| "to_string (JArr xs) = join '','' (map (\<lambda>x. if x = JNull then [] else to_string x) xs)"
| "to_string (JObj ps) = ''[object Object]''"

fun tmpl :: "json option \<Rightarrow> string" where
  "tmpl None = ''undefined''"
| "tmpl (Some v) = to_string v"

section \<open>The network\<close>

text \<open>
  A request is the URL and the headers given to \<open>fetch\<close>. A response has its \<open>ok\<close> flag
  (a status from 200 to 299), its raw body (\<open>response.text()\<close>) and the value the body
  parses to (\<open>response.json()\<close>), \<open>None\<close> when the body is not JSON. The network answers
  each request (\<open>None\<close>: the request fails) and records the calls made, in order.
\<close>

record request =
  url :: string
  headers :: "(string \<times> string) list"

record response =
  ok :: bool
  body :: string
  parsed :: "json option"

record net =
  respond :: "request \<Rightarrow> response option"
  calls :: "request list"

definition fetch :: "request \<Rightarrow> net \<Rightarrow> (error + response) \<times> net" where
  "fetch rq w =
     ((case respond w rq of None \<Rightarrow> Inl FetchFailed | Some r \<Rightarrow> Inr r),
      w\<lparr>calls := calls w @ [rq]\<rparr>)"

definition json_of :: "response \<Rightarrow> error + json" where
  "json_of r = (case parsed r of None \<Rightarrow> Inl SyntaxError | Some d \<Rightarrow> Inr d)"

text \<open>The result of a tool: \<open>{ content: [{ type: "text", text: t }] }\<close>.\<close>

datatype tool_result = Text "json option"

section \<open>The joke tools\<close>

text \<open>
  Each handler takes the network and returns its result, or the error it throws,
  together with the network after its calls.
  \<^verbatim>\<open>
  const response = await fetch("https://api.chucknorris.io/jokes/random");
  const data = await response.json();
  return { content: [{ type: "text", text: data.value }] };
  \<close>
\<close>

definition chuck_joke_request :: request where
  "chuck_joke_request = \<lparr>url = ''https://api.chucknorris.io/jokes/random'', headers = []\<rparr>"

definition getChuckJoke :: "net \<Rightarrow> (error + tool_result) \<times> net" where
  "getChuckJoke w =
     (let (r, w') = fetch chuck_joke_request w
      in (and_then r (\<lambda>response.
          and_then (json_of response) (\<lambda>data.
          and_then (get_prop (Some data) ''value'') (\<lambda>v.
          Inr (Text v)))), w'))"

text \<open>
  \<^verbatim>\<open>
  fetch(`https://api.chucknorris.io/jokes/random?category=${category}`)
  \<close>
\<close>

definition chuck_category_request :: "string \<Rightarrow> request" where
  "chuck_category_request category =
     \<lparr>url = ''https://api.chucknorris.io/jokes/random?category='' @ category, headers = []\<rparr>"

definition getChuckJokeByCategory :: "string \<Rightarrow> net \<Rightarrow> (error + tool_result) \<times> net" where
  "getChuckJokeByCategory category w =
     (let (r, w') = fetch (chuck_category_request category) w
      in (and_then r (\<lambda>response.
          and_then (json_of response) (\<lambda>data.
          and_then (get_prop (Some data) ''value'') (\<lambda>v.
          Inr (Text v)))), w'))"

text \<open>
  \<open>data.join(", ")\<close>: only an array has \<open>join\<close>; its \<open>null\<close> elements print as the empty
  string.
\<close>

definition array_join :: "string \<Rightarrow> json \<Rightarrow> error + string" where
  "array_join sep data =
     (case data of
        JArr xs \<Rightarrow> Inr (join sep (map (\<lambda>x. if x = JNull then [] else to_string x) xs))
      | _ \<Rightarrow> Inl TypeError)"

definition chuck_categories_request :: request where
  "chuck_categories_request =
     \<lparr>url = ''https://api.chucknorris.io/jokes/categories'', headers = []\<rparr>"

definition getChuckCategories :: "net \<Rightarrow> (error + tool_result) \<times> net" where
  "getChuckCategories w =
     (let (r, w') = fetch chuck_categories_request w
      in (and_then r (\<lambda>response.
          and_then (json_of response) (\<lambda>data.
          and_then (array_join '', '' data) (\<lambda>t.
          Inr (Text (Some (JStr t)))))), w'))"

definition dad_joke_request :: request where
  "dad_joke_request =
     \<lparr>url = ''https://icanhazdadjoke.com/'', headers = [(''Accept'', ''application/json'')]\<rparr>"

definition getDadJoke :: "net \<Rightarrow> (error + tool_result) \<times> net" where
  "getDadJoke w =
     (let (r, w') = fetch dad_joke_request w
      in (and_then r (\<lambda>response.
          and_then (json_of response) (\<lambda>data.
          and_then (get_prop (Some data) ''joke'') (\<lambda>v.
          Inr (Text v)))), w'))"

text \<open>
  \<^verbatim>\<open>
  if (!response.ok) throw new Error("Failed to fetch Yo Momma joke");
  const data = await response.json();
  return { content: [{ type: "text",
                       text: `Category: ${data.category}\nJoke: ${data.joke}` }] };
  \<close>
\<close>

definition yo_momma_request :: request where
  "yo_momma_request =
     \<lparr>url = ''https://www.yomama-jokes.com/api/v1/jokes/random/'',
      headers = [(''accept'', ''application/json'')]\<rparr>"

definition getYoMommaJoke :: "net \<Rightarrow> (error + tool_result) \<times> net" where
  "getYoMommaJoke w =
     (let (r, w') = fetch yo_momma_request w
      in (and_then r (\<lambda>response.
          if \<not> ok response then Inl (Error ''Failed to fetch Yo Momma joke'')
          else
          and_then (json_of response) (\<lambda>data.
          and_then (get_prop (Some data) ''category'') (\<lambda>c.
          and_then (get_prop (Some data) ''joke'') (\<lambda>j.
          Inr (Text (Some (JStr (''Category: '' @ tmpl c @ ''\<newline>Joke: '' @ tmpl j)))))))), w'))"

section \<open>The Jira and ServiceNow tools\<close>

text \<open>
  The values read from the environment at startup: the Jira domain, the Base64 of
  \<open>email:token\<close>, the ServiceNow instance and the Base64 of \<open>user:password\<close>.
\<close>

record config =
  JIRA_DOMAIN :: string
  JIRA_AUTH :: string
  SN_INSTANCE :: string
  basicAuth :: string

definition jira_request :: "config \<Rightarrow> jira_args \<Rightarrow> request" where
  "jira_request cfg a =
     \<lparr>url = ''https://'' @ JIRA_DOMAIN cfg @ ''/rest/api/3/search?jql=''
              @ encodeURIComponent (jql a) @ ''&maxResults='' @ number_to_string (maxResults a),
      headers = [(''Accept'', ''application/json''),
                 (''Authorization'', ''Basic '' @ JIRA_AUTH cfg),
                 (''User-Agent'', ''mcp-jira-agent/1.0'')]\<rparr>"

text \<open>
  \<^verbatim>\<open>
  `#${i.key}: ${i.fields.summary} [${i.fields.status.name}]`
  \<close>
\<close>

definition issue_line :: "json \<Rightarrow> error + string" where
  "issue_line i =
     and_then (get_prop (Some i) ''key'') (\<lambda>k.
     and_then (get_prop (Some i) ''fields'') (\<lambda>f.
     and_then (get_prop f ''summary'') (\<lambda>s.
     and_then (get_prop f ''status'') (\<lambda>st.
     and_then (get_prop st ''name'') (\<lambda>n.
     Inr (''#'' @ tmpl k @ '': '' @ tmpl s @ '' ['' @ tmpl n @ '']''))))))"

text \<open>\<open>v.map(f)\<close>: only an array has \<open>map\<close>.\<close>

definition array_map :: "(json \<Rightarrow> error + string) \<Rightarrow> json option \<Rightarrow> error + string list" where
  "array_map f v = (case v of Some (JArr xs) \<Rightarrow> map_result f xs | _ \<Rightarrow> Inl TypeError)"

text \<open>
  \<^verbatim>\<open>
  if (!response.ok) { throw new Error(`Jira error: ${await response.text()}`); }
  const data = await response.json();
  const issues = data.issues.map(...).join("\n");
  return { content: [{ type: "text", text: issues || "No matching issues found." }] };
  \<close>
\<close>

definition getJiraIssues :: "config \<Rightarrow> jira_args \<Rightarrow> net \<Rightarrow> (error + tool_result) \<times> net" where
  "getJiraIssues cfg a w =
     (let (r, w') = fetch (jira_request cfg a) w
      in (and_then r (\<lambda>response.
          if \<not> ok response then Inl (Error (''Jira error: '' @ body response))
          else
          and_then (json_of response) (\<lambda>data.
          and_then (get_prop (Some data) ''issues'') (\<lambda>v.
          and_then (array_map issue_line v) (\<lambda>ls.
          let issues = join ''\<newline>'' ls in
          Inr (Text (Some (JStr (if issues \<noteq> [] then issues
                                  else ''No matching issues found.'')))))))), w'))"

definition sn_request :: "config \<Rightarrow> sn_params \<Rightarrow> request" where
  "sn_request cfg p =
     \<lparr>url = ''https://'' @ SN_INSTANCE cfg
              @ ''.service-now.com/api/now/table/incident?sysparm_limit=''
              @ number_to_string (sysparm_limit p)
              @ ''&sysparm_query='' @ encodeURIComponent (sysparm_query p),
      headers = [(''Accept'', ''application/json''),
                 (''Authorization'', ''Basic '' @ basicAuth cfg),
                 (''User-Agent'', ''Mozilla/5.0'')]\<rparr>"

text \<open>
  \<^verbatim>\<open>
  `#${i.number}: ${i.short_description}`
  \<close>
\<close>

definition incident_line :: "json \<Rightarrow> error + string" where
  "incident_line i =
     and_then (get_prop (Some i) ''number'') (\<lambda>n.
     and_then (get_prop (Some i) ''short_description'') (\<lambda>d.
     Inr (''#'' @ tmpl n @ '': '' @ tmpl d)))"

definition getServiceNowIncidents ::
    "config \<Rightarrow> sn_params \<Rightarrow> net \<Rightarrow> (error + tool_result) \<times> net" where
  "getServiceNowIncidents cfg p w =
     (let (r, w') = fetch (sn_request cfg p) w
      in (and_then r (\<lambda>response.
          if \<not> ok response then Inl (Error (''ServiceNow error: '' @ body response))
          else
          and_then (json_of response) (\<lambda>data.
          and_then (get_prop (Some data) ''result'') (\<lambda>v.
          and_then (array_map incident_line v) (\<lambda>ls.
          let incidents = join ''\<newline>'' ls in
          Inr (Text (Some (JStr (if incidents \<noteq> [] then incidents
                                  else ''No incidents found.'')))))))), w'))"

section \<open>Argument schemas\<close>

text \<open>
  The source registers each tool with a schema (\<open>project: z.string()\<close>,
  \<open>status: z.string().optional()\<close>, \<open>limit: z.number().optional()\<close>, ...). Checking the
  arguments of a call against it, and calling the handler, is done by the schema
  library and the protocol library, which are third-party code and not part of this
  program. They are modelled as they behave on the schemas declared here. The
  arguments arrive as a JSON object. \<open>z.string()\<close> accepts a string, any string, and
  nothing else, an absent key included; \<open>.optional()\<close> also accepts an absent key;
  \<open>z.number()\<close> accepts a number. No schema of this program constrains a value further.
\<close>

definition z_string :: "json option \<Rightarrow> error + string" where
  "z_string v = (case v of Some (JStr s) \<Rightarrow> Inr s | _ \<Rightarrow> Inl InvalidParams)"

definition z_string_optional :: "json option \<Rightarrow> error + string option" where
  "z_string_optional v =
     (case v of None \<Rightarrow> Inr None | Some (JStr s) \<Rightarrow> Inr (Some s) | _ \<Rightarrow> Inl InvalidParams)"

definition z_number_optional :: "json option \<Rightarrow> error + number option" where
  "z_number_optional v =
     (case v of None \<Rightarrow> Inr None | Some (JNum n) \<Rightarrow> Inr (Some n) | _ \<Rightarrow> Inl InvalidParams)"

definition jira_schema :: "(string \<times> json) list \<Rightarrow> error + jira_args" where
  "jira_schema raw =
     and_then (z_string (map_of raw ''project'')) (\<lambda>v1.
     and_then (z_string_optional (map_of raw ''status'')) (\<lambda>v2.
     and_then (z_string_optional (map_of raw ''summary'')) (\<lambda>v3.
     and_then (z_string_optional (map_of raw ''label'')) (\<lambda>v4.
     and_then (z_string_optional (map_of raw ''assignee'')) (\<lambda>v5.
     and_then (z_string_optional (map_of raw ''issueType'')) (\<lambda>v6.
     and_then (z_number_optional (map_of raw ''limit'')) (\<lambda>v7.
     Inr \<lparr>project = v1, status = v2, summary = v3, label = v4, assignee = v5,
          issueType = v6, jira_args.limit = v7\<rparr>)))))))"

definition sn_schema :: "(string \<times> json) list \<Rightarrow> error + sn_params" where
  "sn_schema raw =
     and_then (z_string_optional (map_of raw ''assigned_to'')) (\<lambda>v1.
     and_then (z_string_optional (map_of raw ''state'')) (\<lambda>v2.
     and_then (z_string_optional (map_of raw ''priority'')) (\<lambda>v3.
     and_then (z_string_optional (map_of raw ''short_description'')) (\<lambda>v4.
     and_then (z_number_optional (map_of raw ''limit'')) (\<lambda>v5.
     Inr \<lparr>assigned_to = v1, state = v2, priority = v3, short_description = v4,
          sn_params.limit = v5\<rparr>)))))"

text \<open>
  A call of a registered tool: the schema is checked first, and the handler is called
  only when the arguments pass.
\<close>

definition call_get_jira_issues ::
    "config \<Rightarrow> (string \<times> json) list \<Rightarrow> net \<Rightarrow> (error + tool_result) \<times> net" where
  "call_get_jira_issues cfg raw w =
     (case jira_schema raw of Inl e \<Rightarrow> (Inl e, w) | Inr a \<Rightarrow> getJiraIssues cfg a w)"

definition call_get_servicenow_incidents ::
    "config \<Rightarrow> (string \<times> json) list \<Rightarrow> net \<Rightarrow> (error + tool_result) \<times> net" where
  "call_get_servicenow_incidents cfg raw w =
     (case sn_schema raw of Inl e \<Rightarrow> (Inl e, w) | Inr p \<Rightarrow> getServiceNowIncidents cfg p w)"

section \<open>Clauses, response shapes and example inputs\<close>

text \<open>
  The clause a filter field contributes, in the words of the specification. For Jira:
  none when the field is absent or the empty string, otherwise the one clause made of
  the operator and the value between double quotes. For ServiceNow: none when the
  field is absent or blank after trimming, otherwise the one clause made of the
  operator and the trimmed value.
\<close>

definition jira_clause :: "string \<Rightarrow> string option \<Rightarrow> string list" where
  "jira_clause opr v =
     (case v of None \<Rightarrow> [] | Some s \<Rightarrow> if s = [] then [] else [opr @ ''\"'' @ s @ ''\"''])"

definition sn_clause :: "string \<Rightarrow> string option \<Rightarrow> string list" where
  "sn_clause opr v =
     (case v of None \<Rightarrow> [] | Some s \<Rightarrow> if trim s = [] then [] else [opr @ trim s])"

text \<open>
  The clauses of a query string are its segments between the backend's separators:
  what \<open>String.prototype.split\<close> gives for a non-empty separator. It cuts at the
  leftmost occurrence of the separator and goes on behind it.
\<close>

function split_from :: "string \<Rightarrow> string \<Rightarrow> string \<Rightarrow> string list" where
  "split_from sep cur [] = [cur]"
| "split_from sep cur (c # cs) =
     (if sep \<noteq> [] \<and> prefix sep (c # cs)
      then cur # split_from sep [] (drop (length sep) (c # cs))
      else split_from sep (cur @ [c]) cs)"
  by pat_completeness auto
termination
  by (relation "measure (\<lambda>(sep, cur, s). length s)") auto

declare split_from.simps(2) [simp del]

definition split :: "string \<Rightarrow> string \<Rightarrow> string list" where
  "split sep s = split_from sep [] s"

text \<open>
  A field value is free of the separator when the separator does not occur in it. A
  Jira filter is free of the separator \<open> AND \<close> when no field value holds it and the
  project, which is not quoted, neither holds it nor ends with \<open> AND\<close>. A ServiceNow
  filter is free of the separator when no field value holds a caret.
\<close>

definition value_free :: "string \<Rightarrow> string option \<Rightarrow> bool" where
  "value_free sep v = (case v of None \<Rightarrow> True | Some s \<Rightarrow> \<not> sublist sep s)"

definition jira_separator_free :: "jira_args \<Rightarrow> bool" where
  "jira_separator_free a =
     (\<not> sublist '' AND '' (project a @ '' AND'') \<and> value_free '' AND '' (status a)
      \<and> value_free '' AND '' (summary a) \<and> value_free '' AND '' (label a)
      \<and> value_free '' AND '' (assignee a) \<and> value_free '' AND '' (issueType a))"

definition sn_separator_free :: "sn_params \<Rightarrow> bool" where
  "sn_separator_free p =
     (value_free ''^'' (assigned_to p) \<and> value_free ''^'' (state p)
      \<and> value_free ''^'' (priority p) \<and> value_free ''^'' (short_description p))"

text \<open>
  The shapes the backends' lists are read in: an element of Jira's \<open>issues\<close> with key
  \<open>k\<close>, summary \<open>s\<close> and status name \<open>n\<close>, and an element of ServiceNow's \<open>result\<close> with
  number \<open>n\<close> and short description \<open>d\<close>, all strings; and the line each one is to yield.
\<close>

definition is_issue :: "json \<Rightarrow> string \<times> string \<times> string \<Rightarrow> bool" where
  "is_issue i t =
     (case t of (k, s, n) \<Rightarrow>
        get_prop (Some i) ''key'' = Inr (Some (JStr k)) \<and>
        (case get_prop (Some i) ''fields'' of
           Inl e \<Rightarrow> False
         | Inr f \<Rightarrow>
             get_prop f ''summary'' = Inr (Some (JStr s)) \<and>
             (case get_prop f ''status'' of
                Inl e \<Rightarrow> False
              | Inr st \<Rightarrow> get_prop st ''name'' = Inr (Some (JStr n)))))"

definition is_incident :: "json \<Rightarrow> string \<times> string \<Rightarrow> bool" where
  "is_incident i t =
     (case t of (n, d) \<Rightarrow>
        get_prop (Some i) ''number'' = Inr (Some (JStr n)) \<and>
        get_prop (Some i) ''short_description'' = Inr (Some (JStr d)))"

definition issue_text :: "string \<times> string \<times> string \<Rightarrow> string" where
  "issue_text t = (case t of (k, s, n) \<Rightarrow> ''#'' @ k @ '': '' @ s @ '' ['' @ n @ '']'')"

definition incident_text :: "string \<times> string \<Rightarrow> string" where
  "incident_text t = (case t of (n, d) \<Rightarrow> ''#'' @ n @ '': '' @ d)"

text \<open>A configuration, and the network that has seen no call and answers every request alike.\<close>

definition demo_config :: config where
  "demo_config = \<lparr>JIRA_DOMAIN = ''example.atlassian.net'', JIRA_AUTH = ''QQ=='',
                   SN_INSTANCE = ''dev1'', basicAuth = ''Qg==''\<rparr>"

definition answering :: "response \<Rightarrow> net" where
  "answering r = \<lparr>respond = (\<lambda>rq. Some r), calls = []\<rparr>"

definition only_project :: "string \<Rightarrow> jira_args" where
  "only_project p = \<lparr>project = p, status = None, summary = None, label = None,
                      assignee = None, issueType = None, jira_args.limit = None\<rparr>"

definition no_filters :: sn_params where
  "no_filters = \<lparr>assigned_to = None, state = None, priority = None,
                  short_description = None, sn_params.limit = None\<rparr>"

section \<open>Properties of the translators\<close>

text \<open>
  C6. When only the scope is set and every optional filter is absent, the Jira query
  is exactly \<open>project=<scope>\<close> and the ServiceNow query is the empty string.
\<close>

theorem only_scope_queries:
  "jql \<lparr>project = scope, status = None, summary = None, label = None, assignee = None,
        issueType = None, jira_args.limit = lim\<rparr> = ''project='' @ scope
   \<and> sysparm_query \<lparr>assigned_to = None, state = None, priority = None,
        short_description = None, sn_params.limit = lim'\<rparr> = ''''"
  by (simp add: jql_def jqlParts_def sysparm_query_def queryParts_def opt_trim_def)

text \<open>
  C7. For the ServiceNow filter with assignee \<open>bob\<close> and text match \<open>disk full\<close>, all
  other filters absent, the query before URL encoding is exactly
  \<open>assigned_to=bob^short_descriptionLIKEdisk full\<close>.
\<close>

theorem bob_disk_full_query:
  "sysparm_query \<lparr>assigned_to = Some ''bob'', state = None, priority = None,
        short_description = Some ''disk full'', sn_params.limit = None\<rparr>
   = ''assigned_to=bob^short_descriptionLIKEdisk full''"
  by (simp add: sysparm_query_def queryParts_def opt_trim_def trim_def is_white_space_def)


section \<open>Shared facts about the translators\<close>

lemma jqlParts_clauses:
  "jqlParts a = [''project='' @ project a] @ jira_clause ''status='' (status a)
      @ jira_clause ''summary~'' (summary a) @ jira_clause ''labels='' (label a)
      @ jira_clause ''assignee='' (assignee a) @ jira_clause ''issuetype='' (issueType a)"
  by (cases "status a"; cases "summary a"; cases "label a"; cases "assignee a";
      cases "issueType a"; simp add: jqlParts_def jira_clause_def)

lemma queryParts_clauses:
  "queryParts p = sn_clause ''assigned_to='' (assigned_to p) @ sn_clause ''state='' (state p)
      @ sn_clause ''priority='' (priority p)
      @ sn_clause ''short_descriptionLIKE'' (short_description p)"
  by (cases "assigned_to p"; cases "state p"; cases "priority p"; cases "short_description p";
      simp add: queryParts_def sn_clause_def opt_trim_def)

lemma filter_jira_clause:
  "filter (prefix q) (jira_clause opr v) =
     (if prefix q (opr @ ''\"'' @ the v @ ''\"'') then jira_clause opr v else [])"
  by (simp add: jira_clause_def split: option.splits)

lemma filter_sn_clause:
  "filter (prefix q) (sn_clause opr v) =
     (if prefix q (opr @ trim (the v)) then sn_clause opr v else [])"
  by (simp add: sn_clause_def split: option.splits)

lemma trim_blank: "trim '' '' = []"
  by (simp add: trim_def is_white_space_def)

lemma filter_jqlParts:
  "filter (prefix ''status=\"'') (jqlParts a) = jira_clause ''status='' (status a)"
  "filter (prefix ''summary~\"'') (jqlParts a) = jira_clause ''summary~'' (summary a)"
  "filter (prefix ''labels=\"'') (jqlParts a) = jira_clause ''labels='' (label a)"
  "filter (prefix ''assignee=\"'') (jqlParts a) = jira_clause ''assignee='' (assignee a)"
  "filter (prefix ''issuetype=\"'') (jqlParts a) = jira_clause ''issuetype='' (issueType a)"
  by (simp_all add: jqlParts_clauses filter_jira_clause)

lemma filter_queryParts:
  "filter (prefix ''assigned_to='') (queryParts p) = sn_clause ''assigned_to='' (assigned_to p)"
  "filter (prefix ''state='') (queryParts p) = sn_clause ''state='' (state p)"
  "filter (prefix ''priority='') (queryParts p) = sn_clause ''priority='' (priority p)"
  "filter (prefix ''short_descriptionLIKE'') (queryParts p)
     = sn_clause ''short_descriptionLIKE'' (short_description p)"
  by (simp_all add: queryParts_clauses filter_sn_clause)

lemma nonempty_queryParts: "filter (\<lambda>c. c \<noteq> []) (queryParts p) = queryParts p"
  by (simp add: queryParts_clauses sn_clause_def split: option.splits)

section \<open>Splitting a joined string\<close>

lemma prefix_long: "length xs \<le> length ys \<Longrightarrow> prefix xs (ys @ zs) = prefix xs ys"
  by (auto simp: prefix_append)

lemma split_from_part:
  assumes "sep \<noteq> []" and "\<not> sublist sep (p @ butlast sep)"
  shows "split_from sep cur (p @ sep @ rest) = (cur @ p) # split_from sep [] rest"
  using assms(2)
proof (induction p arbitrary: cur)
  case Nil
  obtain c cs where sep: "sep = c # cs" using assms(1) by (cases sep) auto
  have "split_from sep cur (sep @ rest) = cur # split_from sep [] (drop (length sep) (sep @ rest))"
    unfolding sep by (simp add: split_from.simps(2))
  then show ?case by simp
next
  case (Cons x p)
  have np: "\<not> prefix sep (x # p @ butlast sep)" and ns: "\<not> sublist sep (p @ butlast sep)"
    using Cons.prems by (simp_all add: sublist_Cons_right)
  have "sep @ rest = butlast sep @ last sep # rest"
    using append_butlast_last_id [OF assms(1)] by (metis append.assoc append_Cons append_Nil)
  then have eq: "x # p @ sep @ rest = (x # p @ butlast sep) @ (last sep # rest)"
    by simp
  have "length sep \<le> length (x # p @ butlast sep)" by simp
  then have "prefix sep ((x # p @ butlast sep) @ (last sep # rest))
             = prefix sep (x # p @ butlast sep)"
    by (rule prefix_long)
  with np have "\<not> prefix sep ((x # p @ butlast sep) @ (last sep # rest))" by blast
  then have "\<not> prefix sep (x # p @ sep @ rest)" unfolding eq .
  then have "split_from sep cur ((x # p) @ sep @ rest) = split_from sep (cur @ [x]) (p @ sep @ rest)"
    by (simp add: split_from.simps(2))
  then show ?case using Cons.IH [OF ns] by simp
qed

lemma split_from_last:
  "\<not> sublist sep p \<Longrightarrow> sep \<noteq> [] \<Longrightarrow> split_from sep cur p = [cur @ p]"
proof (induction p arbitrary: cur)
  case Nil
  then show ?case by simp
next
  case (Cons x p)
  then show ?case by (simp add: sublist_Cons_right split_from.simps(2))
qed

lemma sublist_appendD: "\<not> sublist sep (p @ q) \<Longrightarrow> \<not> sublist sep p"
  by (auto simp: sublist_append)

lemma split_join:
  assumes "sep \<noteq> []" and "parts \<noteq> []"
    and "\<forall>p\<in>set parts. \<not> sublist sep (p @ butlast sep)"
  shows "split sep (join sep parts) = parts"
  using assms(2,3)
proof (induction parts rule: list_nonempty_induct)
  case (single x)
  then have "\<not> sublist sep x" by (auto dest: sublist_appendD)
  then show ?case using assms(1) by (simp add: split_def split_from_last)
next
  case (cons x xs)
  obtain y ys where xs: "xs = y # ys" using cons.hyps by (cases xs) auto
  have "split sep (join sep (x # xs)) = split_from sep [] (x @ sep @ join sep xs)"
    by (simp add: split_def xs)
  also have "\<dots> = x # split_from sep [] (join sep xs)"
    using split_from_part [OF assms(1), of x "[]" "join sep xs"] cons.prems by simp
  also have "split_from sep [] (join sep xs) = xs"
    using cons.IH cons.prems by (simp add: split_def)
  finally show ?case .
qed

lemma split_from_char:
  "split_from [c] cur (xs @ c # ys) = split_from [c] cur xs @ split_from [c] [] ys"
  by (induction xs arbitrary: cur) (auto simp add: split_from.simps(2))

lemma split_char_join:
  "parts \<noteq> [] \<Longrightarrow> split [c] (join [c] parts) = concat (map (split [c]) parts)"
proof (induction parts rule: list_nonempty_induct)
  case (single x)
  then show ?case by simp
next
  case (cons x xs)
  obtain y ys where xs: "xs = y # ys" using cons.hyps by (cases xs) auto
  show ?case using cons.IH by (simp add: xs split_def split_from_char)
qed

lemma prefix_hd_split_from: "prefix cur (hd (split_from sep cur s))"
proof (induction s arbitrary: cur)
  case Nil
  then show ?case by simp
next
  case (Cons x s)
  show ?case using Cons [of "cur @ [x]"] by (auto simp: split_from.simps(2) dest: append_prefixD)
qed

lemma split_from_nonempty: "split_from sep cur s \<noteq> []"
  by (induction s arbitrary: cur) (simp_all add: split_from.simps(2))

lemma split_from_skip:
  "c \<notin> set op \<Longrightarrow> split_from [c] cur (op @ rest) = split_from [c] (cur @ op) rest"
  by (induction op arbitrary: cur) (auto simp add: split_from.simps(2))

lemma clause_in_split:
  assumes "c \<notin> set op"
  shows "\<exists>x\<in>set (split [c] (op @ rest)). prefix op x"
proof -
  have "split [c] (op @ rest) = split_from [c] op rest"
    using split_from_skip [OF assms, of "[]" rest] by (simp add: split_def)
  moreover have "hd (split_from [c] op rest) \<in> set (split_from [c] op rest)"
    by (simp add: split_from_nonempty)
  ultimately show ?thesis using prefix_hd_split_from [of op "[c]" rest] by auto
qed

lemma sublist_skip:
  "set op \<inter> set sep = {} \<Longrightarrow> sep \<noteq> [] \<Longrightarrow> sublist sep (op @ zs) \<Longrightarrow> sublist sep zs"
proof (induction op)
  case Nil
  then show ?case by simp
next
  case (Cons x op)
  obtain s ss where sep: "sep = s # ss" using Cons.prems(2) by (cases sep) auto
  have "\<not> prefix sep (x # op @ zs)" using Cons.prems(1) by (auto simp: sep)
  then have "sublist sep (op @ zs)" using Cons.prems(3) by (simp add: sublist_Cons_right)
  then show ?case using Cons by simp
qed

lemma sublist_across:
  assumes "q \<notin> set sep" and "sublist sep (xs @ q # ys)"
  shows "sublist sep xs \<or> sublist sep ys"
proof -
  from assms(2) consider "sublist sep xs" | "sublist sep (q # ys)"
    | xs1 xs2 where "sep = xs1 @ xs2" "suffix xs1 xs" "prefix xs2 (q # ys)"
    by (auto simp: sublist_append)
  then show ?thesis
  proof cases
    case 1
    then show ?thesis by simp
  next
    case 2
    then show ?thesis using assms(1) by (cases sep) (auto simp: sublist_Cons_right)
  next
    case 3
    show ?thesis
    proof (cases xs2)
      case Nil
      then show ?thesis using 3 by (auto simp: suffix_def)
    next
      case (Cons z zs)
      then have "z = q" using 3(3) by simp
      then show ?thesis using assms(1) 3(1) Cons by simp
    qed
  qed
qed

lemma sublist_trim: "sublist sep (trim s) \<Longrightarrow> sublist sep s"
proof -
  have "sublist (trim s) s"
  proof -
    have "sublist (dropWhile is_white_space (rev (dropWhile is_white_space s)))
            (rev (dropWhile is_white_space s))" by simp
    then have "sublist (trim s) (dropWhile is_white_space s)"
      by (simp add: trim_def sublist_rev_left)
    moreover have "sublist (dropWhile is_white_space s) s" by simp
    ultimately show ?thesis by (rule sublist_order.order_trans)
  qed
  then show "sublist sep (trim s) \<Longrightarrow> sublist sep s"
    by (rule sublist_order.order_trans [rotated])
qed

lemma jira_clause_free:
  assumes "set opr \<inter> set '' AND '' = {}" and "value_free '' AND '' v"
  shows "\<forall>c\<in>set (jira_clause opr v). \<not> sublist '' AND '' (c @ '' AND'')"
proof (cases v)
  case None
  then show ?thesis by (simp add: jira_clause_def)
next
  case (Some s)
  have ns: "\<not> sublist '' AND '' s" using assms(2) Some by (simp add: value_free_def)
  have "\<not> sublist '' AND '' (opr @ ''\"'' @ s @ ''\"'' @ '' AND'')"
  proof
    assume "sublist '' AND '' (opr @ ''\"'' @ s @ ''\"'' @ '' AND'')"
    then have "sublist '' AND '' (''\"'' @ s @ ''\"'' @ '' AND'')"
      using sublist_skip [OF assms(1)] by blast
    then have "sublist '' AND '' ([] @ CHR 0x22 # (s @ CHR 0x22 # '' AND''))" by simp
    then have "sublist '' AND '' (s @ CHR 0x22 # '' AND'')"
      using sublist_across [of "CHR 0x22" "'' AND ''" "[]"] by fastforce
    then have "sublist '' AND '' s \<or> sublist '' AND '' '' AND''"
      by (intro sublist_across [of "CHR 0x22"]) simp_all
    then show False using ns by (simp add: sublist_Cons_right)
  qed
  then show ?thesis using Some by (simp add: jira_clause_def)
qed

lemma jira_split:
  assumes "jira_separator_free a"
  shows "split '' AND '' (jql a) = jqlParts a"
proof -
  have "\<not> sublist '' AND '' ((''project='' @ project a) @ '' AND'')"
  proof
    assume "sublist '' AND '' ((''project='' @ project a) @ '' AND'')"
    then have "sublist '' AND '' (''project='' @ (project a @ '' AND''))" by simp
    then have "sublist '' AND '' (project a @ '' AND'')"
      by (rule sublist_skip [rotated 2]) simp_all
    then show False using assms by (simp add: jira_separator_free_def)
  qed
  moreover have vf: "value_free '' AND '' (status a)" "value_free '' AND '' (summary a)"
    "value_free '' AND '' (label a)" "value_free '' AND '' (assignee a)"
    "value_free '' AND '' (issueType a)"
    using assms by (simp_all add: jira_separator_free_def)
  have "\<forall>c\<in>set (jira_clause ''status='' (status a)). \<not> sublist '' AND '' (c @ '' AND'')"
    by (rule jira_clause_free [OF _ vf(1)]) simp
  moreover
  have "\<forall>c\<in>set (jira_clause ''summary~'' (summary a)). \<not> sublist '' AND '' (c @ '' AND'')"
    by (rule jira_clause_free [OF _ vf(2)]) simp
  moreover
  have "\<forall>c\<in>set (jira_clause ''labels='' (label a)). \<not> sublist '' AND '' (c @ '' AND'')"
    by (rule jira_clause_free [OF _ vf(3)]) simp
  moreover
  have "\<forall>c\<in>set (jira_clause ''assignee='' (assignee a)). \<not> sublist '' AND '' (c @ '' AND'')"
    by (rule jira_clause_free [OF _ vf(4)]) simp
  moreover
  have "\<forall>c\<in>set (jira_clause ''issuetype='' (issueType a)). \<not> sublist '' AND '' (c @ '' AND'')"
    by (rule jira_clause_free [OF _ vf(5)]) simp
  ultimately have "\<forall>c\<in>set (jqlParts a). \<not> sublist '' AND '' (c @ butlast '' AND '')"
    by (auto simp: jqlParts_clauses)
  moreover have "jqlParts a \<noteq> []" by (simp add: jqlParts_clauses)
  ultimately show ?thesis unfolding jql_def by (intro split_join) simp_all
qed

lemma sn_clause_free:
  assumes "set opr \<inter> set ''^'' = {}" and "value_free ''^'' v"
  shows "\<forall>c\<in>set (sn_clause opr v). \<not> sublist ''^'' c"
proof (cases v)
  case None
  then show ?thesis by (simp add: sn_clause_def)
next
  case (Some s)
  have "\<not> sublist ''^'' (trim s)"
    using assms(2) Some sublist_trim [of "''^''" s] by (auto simp: value_free_def)
  then have "\<not> sublist ''^'' (opr @ trim s)"
    using sublist_skip [OF assms(1), of "trim s"] by blast
  then show ?thesis using Some by (simp add: sn_clause_def)
qed

lemma sn_split:
  assumes "sn_separator_free p"
  shows "split ''^'' (sysparm_query p) = (if queryParts p = [] then [[]] else queryParts p)"
proof (cases "queryParts p = []")
  case True
  then show ?thesis by (simp add: sysparm_query_def split_def)
next
  case False
  have vf: "value_free ''^'' (assigned_to p)" "value_free ''^'' (state p)"
    "value_free ''^'' (priority p)" "value_free ''^'' (short_description p)"
    using assms by (simp_all add: sn_separator_free_def)
  have "\<forall>c\<in>set (sn_clause ''assigned_to='' (assigned_to p)). \<not> sublist ''^'' c"
    by (rule sn_clause_free [OF _ vf(1)]) simp
  moreover have "\<forall>c\<in>set (sn_clause ''state='' (state p)). \<not> sublist ''^'' c"
    by (rule sn_clause_free [OF _ vf(2)]) simp
  moreover have "\<forall>c\<in>set (sn_clause ''priority='' (priority p)). \<not> sublist ''^'' c"
    by (rule sn_clause_free [OF _ vf(3)]) simp
  moreover
  have "\<forall>c\<in>set (sn_clause ''short_descriptionLIKE'' (short_description p)). \<not> sublist ''^'' c"
    by (rule sn_clause_free [OF _ vf(4)]) simp
  ultimately have "\<forall>c\<in>set (queryParts p). \<not> sublist ''^'' (c @ butlast ''^'')"
    by (auto simp: queryParts_clauses)
  then have "split ''^'' (join ''^'' (queryParts p)) = queryParts p"
    using False by (intro split_join) simp_all
  then show ?thesis using False by (simp add: sysparm_query_def)
qed

lemma sn_split_filter:
  assumes "sn_separator_free p" and "opr \<noteq> []"
  shows "filter (prefix opr) (split ''^'' (sysparm_query p)) = filter (prefix opr) (queryParts p)"
  using assms(2) by (cases "queryParts p = []") (simp_all add: sn_split [OF assms(1)])


section \<open>Clauses in the translated query\<close>

text \<open>
  C1, as amended. Let no field value hold the backend's separator (for Jira, let the
  project moreover not end with \<open> AND\<close>). Then in the translated query string, read
  as its clauses, each optional field has exactly one clause or none. For ServiceNow
  a field that is present and non-blank after trimming has exactly one clause
  (operator, then the trimmed value) and a field that is absent or blank after
  trimming has none. The Jira translator does not trim: a field that is present and
  not the empty string has exactly one clause (operator, then the value as it is
  between double quotes), a field that is absent or the empty string has none, and a
  field of white space only is not empty and does have a clause.
\<close>

theorem field_clauses:
  "(jira_separator_free a \<longrightarrow>
      split '' AND '' (jql a) = [''project='' @ project a] @ jira_clause ''status='' (status a)
        @ jira_clause ''summary~'' (summary a) @ jira_clause ''labels='' (label a)
        @ jira_clause ''assignee='' (assignee a) @ jira_clause ''issuetype='' (issueType a)
      \<and> filter (prefix ''status=\"'') (split '' AND '' (jql a))
          = jira_clause ''status='' (status a)
      \<and> filter (prefix ''summary~\"'') (split '' AND '' (jql a))
          = jira_clause ''summary~'' (summary a)
      \<and> filter (prefix ''labels=\"'') (split '' AND '' (jql a))
          = jira_clause ''labels='' (label a)
      \<and> filter (prefix ''assignee=\"'') (split '' AND '' (jql a))
          = jira_clause ''assignee='' (assignee a)
      \<and> filter (prefix ''issuetype=\"'') (split '' AND '' (jql a))
          = jira_clause ''issuetype='' (issueType a))
   \<and> (sn_separator_free p \<longrightarrow>
      filter (\<lambda>c. c \<noteq> []) (split ''^'' (sysparm_query p))
          = sn_clause ''assigned_to='' (assigned_to p) @ sn_clause ''state='' (state p)
            @ sn_clause ''priority='' (priority p)
            @ sn_clause ''short_descriptionLIKE'' (short_description p)
      \<and> filter (prefix ''assigned_to='') (split ''^'' (sysparm_query p))
          = sn_clause ''assigned_to='' (assigned_to p)
      \<and> filter (prefix ''state='') (split ''^'' (sysparm_query p))
          = sn_clause ''state='' (state p)
      \<and> filter (prefix ''priority='') (split ''^'' (sysparm_query p))
          = sn_clause ''priority='' (priority p)
      \<and> filter (prefix ''short_descriptionLIKE'') (split ''^'' (sysparm_query p))
          = sn_clause ''short_descriptionLIKE'' (short_description p))
   \<and> length (jira_clause opr v) = (if truthy v then 1 else 0)
   \<and> length (sn_clause opr v) = (if truthy (opt_trim v) then 1 else 0)"
proof (intro conjI impI)
  assume free: "jira_separator_free a"
  show "split '' AND '' (jql a) = [''project='' @ project a] @ jira_clause ''status='' (status a)
        @ jira_clause ''summary~'' (summary a) @ jira_clause ''labels='' (label a)
        @ jira_clause ''assignee='' (assignee a) @ jira_clause ''issuetype='' (issueType a)"
    using jira_split [OF free] jqlParts_clauses [of a] by simp
  show "filter (prefix ''status=\"'') (split '' AND '' (jql a))
          = jira_clause ''status='' (status a)"
    by (simp only: jira_split [OF free] filter_jqlParts)
  show "filter (prefix ''summary~\"'') (split '' AND '' (jql a))
          = jira_clause ''summary~'' (summary a)"
    by (simp only: jira_split [OF free] filter_jqlParts)
  show "filter (prefix ''labels=\"'') (split '' AND '' (jql a))
          = jira_clause ''labels='' (label a)"
    by (simp only: jira_split [OF free] filter_jqlParts)
  show "filter (prefix ''assignee=\"'') (split '' AND '' (jql a))
          = jira_clause ''assignee='' (assignee a)"
    by (simp only: jira_split [OF free] filter_jqlParts)
  show "filter (prefix ''issuetype=\"'') (split '' AND '' (jql a))
          = jira_clause ''issuetype='' (issueType a)"
    by (simp only: jira_split [OF free] filter_jqlParts)
next
  assume free: "sn_separator_free p"
  have sp: "split ''^'' (sysparm_query p) = (if queryParts p = [] then [[]] else queryParts p)"
    by (rule sn_split [OF free])
  show "filter (\<lambda>c. c \<noteq> []) (split ''^'' (sysparm_query p))
          = sn_clause ''assigned_to='' (assigned_to p) @ sn_clause ''state='' (state p)
            @ sn_clause ''priority='' (priority p)
            @ sn_clause ''short_descriptionLIKE'' (short_description p)"
    using nonempty_queryParts [of p] queryParts_clauses [of p] by (simp add: sp)
  show "filter (prefix ''assigned_to='') (split ''^'' (sysparm_query p))
          = sn_clause ''assigned_to='' (assigned_to p)"
    using filter_queryParts(1) [of p] by (simp add: sn_split_filter [OF free])
  show "filter (prefix ''state='') (split ''^'' (sysparm_query p))
          = sn_clause ''state='' (state p)"
    using filter_queryParts(2) [of p] by (simp add: sn_split_filter [OF free])
  show "filter (prefix ''priority='') (split ''^'' (sysparm_query p))
          = sn_clause ''priority='' (priority p)"
    using filter_queryParts(3) [of p] by (simp add: sn_split_filter [OF free])
  show "filter (prefix ''short_descriptionLIKE'') (split ''^'' (sysparm_query p))
          = sn_clause ''short_descriptionLIKE'' (short_description p)"
    using filter_queryParts(4) [of p] by (simp add: sn_split_filter [OF free])
next
  show "length (jira_clause opr v) = (if truthy v then 1 else 0)"
    by (cases v) (simp_all add: jira_clause_def)
  show "length (sn_clause opr v) = (if truthy (opt_trim v) then 1 else 0)"
    by (cases v) (simp_all add: sn_clause_def opt_trim_def)
qed

theorem field_clauses_witness:
  "split '' AND '' (jql ((only_project ''MCP'')\<lparr>status := Some ''Done'', assignee := Some ''jane''\<rparr>))
     = [''project=MCP'', ''status=\"Done\"'', ''assignee=\"jane\"'']
   \<and> filter (prefix ''status=\"'')
        (split '' AND '' (jql ((only_project ''MCP'')\<lparr>status := Some ''Done'',
                                                       assignee := Some ''jane''\<rparr>)))
     = [''status=\"Done\"'']
   \<and> filter (prefix ''labels=\"'')
        (split '' AND '' (jql ((only_project ''MCP'')\<lparr>status := Some ''Done'',
                                                       assignee := Some ''jane''\<rparr>)))
     = []
   \<and> filter (\<lambda>c. c \<noteq> [])
        (split ''^'' (sysparm_query (no_filters\<lparr>assigned_to := Some ''bob'', state := Some ''  '',
                                                 short_description := Some '' disk full ''\<rparr>)))
     = [''assigned_to=bob'', ''short_descriptionLIKEdisk full'']
   \<and> filter (prefix ''state='')
        (split ''^'' (sysparm_query (no_filters\<lparr>assigned_to := Some ''bob'', state := Some ''  '',
                                                 short_description := Some '' disk full ''\<rparr>)))
     = []"
  using field_clauses [of "(only_project ''MCP'')\<lparr>status := Some ''Done'', assignee := Some ''jane''\<rparr>"
      "no_filters\<lparr>assigned_to := Some ''bob'', state := Some ''  '',
                  short_description := Some '' disk full ''\<rparr>"]
  by (simp add: jira_separator_free_def sn_separator_free_def value_free_def only_project_def
      no_filters_def sublist_Cons_right jira_clause_def sn_clause_def trim_def
      is_white_space_def)

text \<open>
  C1 as stated fails twice. A status of one space is blank after trimming, yet the
  Jira query has a status clause. And a value that holds the separator changes the
  clauses: with the assignee \<open>x^priority=1\<close> and the priority \<open>1\<close> the ServiceNow query
  has two clauses \<open>priority=1\<close>; with the status \<open>Done" AND assignee="admin\<close> the Jira
  query has an assignee clause though no assignee is set; and with the project
  \<open>X AND\<close> and the status \<open>Done\<close> the Jira query has no clause that begins with
  \<open>status=\<close>.
\<close>

theorem blank_status_clause:
  "trim '' '' = []
   \<and> split '' AND '' (jql ((only_project ''MCP'')\<lparr>status := Some '' ''\<rparr>))
       = [''project=MCP'', ''status=\" \"'']
   \<and> split ''^'' (sysparm_query (no_filters\<lparr>assigned_to := Some ''x^priority=1'',
                                               priority := Some ''1''\<rparr>))
       = [''assigned_to=x'', ''priority=1'', ''priority=1'']
   \<and> split '' AND '' (jql ((only_project ''MCP'')\<lparr>status := Some ''Done\" AND assignee=\"admin''\<rparr>))
       = [''project=MCP'', ''status=\"Done\"'', ''assignee=\"admin\"'']
   \<and> split '' AND '' (jql ((only_project ''X AND'')\<lparr>status := Some ''Done''\<rparr>))
       = [''project=X'', ''AND status=\"Done\"'']"
  by (simp add: trim_blank jql_def jqlParts_def only_project_def sysparm_query_def
      queryParts_def no_filters_def opt_trim_def trim_def is_white_space_def split_def
      split_from.simps(2))

text \<open>
  C3, as amended. The schema of the ServiceNow tool accepts a \<open>priority\<close> string, and
  whenever the argument is present and non-blank after trimming, the built
  \<open>sysparm_query\<close> holds a clause that begins with \<open>priority=\<close>. When no field value
  holds a caret, that clause is \<open>priority=<value trimmed>\<close> and is the only one that
  begins so, and the query built from an absent or blank priority has none.
\<close>

theorem priority_clause:
  "sn_schema [(''priority'', JStr s)] = Inr (no_filters\<lparr>priority := Some s\<rparr>)
   \<and> (truthy (opt_trim (priority p)) \<longrightarrow>
        (\<exists>c\<in>set (split ''^'' (sysparm_query p)). prefix ''priority='' c))
   \<and> (sn_separator_free p \<longrightarrow>
        filter (prefix ''priority='') (split ''^'' (sysparm_query p)) =
          (case priority p of None \<Rightarrow> []
           | Some v \<Rightarrow> if trim v = [] then [] else [''priority='' @ trim v]))"
proof (intro conjI impI)
  show "sn_schema [(''priority'', JStr s)] = Inr (no_filters\<lparr>priority := Some s\<rparr>)"
    by (simp add: sn_schema_def and_then_def z_string_optional_def z_number_optional_def
        no_filters_def)
next
  assume "truthy (opt_trim (priority p))"
  then obtain v where v: "priority p = Some v" "trim v \<noteq> []"
    by (cases "priority p") (simp_all add: opt_trim_def)
  then have mem: "''priority='' @ trim v \<in> set (queryParts p)"
    by (simp add: queryParts_clauses sn_clause_def)
  then have ne: "queryParts p \<noteq> []" by auto
  have "\<exists>x\<in>set (split ''^'' (''priority='' @ trim v)). prefix ''priority='' x"
    by (rule clause_in_split) simp
  then obtain x where x: "x \<in> set (split ''^'' (''priority='' @ trim v))" "prefix ''priority='' x"
    by blast
  have "split ''^'' (sysparm_query p) = concat (map (split ''^'') (queryParts p))"
    unfolding sysparm_query_def by (rule split_char_join [OF ne])
  then have "x \<in> set (split ''^'' (sysparm_query p))" using mem x(1) by auto
  then show "\<exists>c\<in>set (split ''^'' (sysparm_query p)). prefix ''priority='' c"
    using x(2) by blast
next
  assume free: "sn_separator_free p"
  show "filter (prefix ''priority='') (split ''^'' (sysparm_query p)) =
          (case priority p of None \<Rightarrow> []
           | Some v \<Rightarrow> if trim v = [] then [] else [''priority='' @ trim v])"
    using filter_queryParts(3) [of p]
    by (simp add: sn_split_filter [OF free] sn_clause_def)
qed

theorem priority_clause_witness:
  "(\<exists>c\<in>set (split ''^'' (sysparm_query (no_filters\<lparr>state := Some ''2'', priority := Some '' 1 ''\<rparr>))).
       prefix ''priority='' c)
   \<and> filter (prefix ''priority='')
        (split ''^'' (sysparm_query (no_filters\<lparr>state := Some ''2'', priority := Some '' 1 ''\<rparr>)))
     = [''priority=1'']
   \<and> filter (prefix ''priority='') (split ''^'' (sysparm_query (no_filters\<lparr>state := Some ''2''\<rparr>)))
     = []"
  using priority_clause [of _ "no_filters\<lparr>state := Some ''2'', priority := Some '' 1 ''\<rparr>"]
    priority_clause [of _ "no_filters\<lparr>state := Some ''2''\<rparr>"]
  by (simp add: sn_separator_free_def value_free_def no_filters_def sublist_Cons_right
      opt_trim_def trim_def is_white_space_def)

text \<open>
  C3 as stated fails: the priority \<open>1\<close> passes the schema and the built query is
  \<open>priority=1\<close>.
\<close>

theorem priority_in_query:
  "sn_schema [(''priority'', JStr ''1'')] = Inr (no_filters\<lparr>priority := Some ''1''\<rparr>)
   \<and> sysparm_query (no_filters\<lparr>priority := Some ''1''\<rparr>) = ''priority=1''"
  by (simp add: sn_schema_def and_then_def z_string_optional_def z_number_optional_def
      no_filters_def sysparm_query_def queryParts_def opt_trim_def trim_def is_white_space_def)

text \<open>
  C10. A field value goes into the Jira query as it is, double quotes included. With
  the two fields project \<open>MCP\<close> and status \<open>Done" AND assignee="admin\<close> set, the
  translator pushes two clauses, and the query string is the one of three clauses:
  the very string built from project \<open>MCP\<close>, status \<open>Done\<close> and assignee \<open>admin\<close>.
\<close>

theorem quote_injection:
  "length (jqlParts ((only_project ''MCP'')\<lparr>status := Some ''Done\" AND assignee=\"admin''\<rparr>)) = 2
   \<and> jql ((only_project ''MCP'')\<lparr>status := Some ''Done\" AND assignee=\"admin''\<rparr>)
       = join '' AND '' [''project=MCP'', ''status=\"Done\"'', ''assignee=\"admin\"'']
   \<and> jql ((only_project ''MCP'')\<lparr>status := Some ''Done\" AND assignee=\"admin''\<rparr>)
       = jql ((only_project ''MCP'')\<lparr>status := Some ''Done'', assignee := Some ''admin''\<rparr>)"
  by (simp add: jql_def jqlParts_def only_project_def)


section \<open>Shared facts about the handlers\<close>

lemma fetch_Some:
  "respond w rq = Some r \<Longrightarrow> fetch rq w = (Inr r, w\<lparr>calls := calls w @ [rq]\<rparr>)"
  by (simp add: fetch_def)

lemma and_then_InvalidParams:
  "(and_then r f = Inl InvalidParams) =
     (r = Inl InvalidParams \<or> (\<exists>v. r = Inr v \<and> f v = Inl InvalidParams))"
  by (cases r) (simp_all add: and_then_def)

lemma get_prop_not_InvalidParams: "get_prop v k \<noteq> Inl InvalidParams"
  by (cases "(v, k)" rule: get_prop.cases) simp_all

lemma map_result_not_InvalidParams:
  "(\<And>x. f x \<noteq> Inl InvalidParams) \<Longrightarrow> map_result f xs \<noteq> Inl InvalidParams"
  by (induction xs) (simp_all add: and_then_InvalidParams)

lemma issue_line_not_InvalidParams: "issue_line i \<noteq> Inl InvalidParams"
  by (simp add: issue_line_def and_then_InvalidParams get_prop_not_InvalidParams)

lemma incident_line_not_InvalidParams: "incident_line i \<noteq> Inl InvalidParams"
  by (simp add: incident_line_def and_then_InvalidParams get_prop_not_InvalidParams)

lemma array_map_not_InvalidParams:
  "(\<And>x. f x \<noteq> Inl InvalidParams) \<Longrightarrow> array_map f v \<noteq> Inl InvalidParams"
  by (simp add: array_map_def map_result_not_InvalidParams split: option.splits json.splits)

lemma json_of_not_InvalidParams: "json_of r \<noteq> Inl InvalidParams"
  by (simp add: json_of_def split: option.splits)

lemma getJiraIssues_not_InvalidParams: "fst (getJiraIssues cfg a w) \<noteq> Inl InvalidParams"
  by (simp add: getJiraIssues_def and_then_InvalidParams fetch_def
      json_of_not_InvalidParams get_prop_not_InvalidParams array_map_not_InvalidParams
      issue_line_not_InvalidParams Let_def split: option.splits)

lemma getServiceNowIncidents_not_InvalidParams:
  "fst (getServiceNowIncidents cfg p w) \<noteq> Inl InvalidParams"
  by (simp add: getServiceNowIncidents_def and_then_InvalidParams fetch_def
      json_of_not_InvalidParams get_prop_not_InvalidParams array_map_not_InvalidParams
      incident_line_not_InvalidParams Let_def split: option.splits)

lemma calls_getJiraIssues:
  "calls (snd (getJiraIssues cfg a w)) = calls w @ [jira_request cfg a]"
  by (simp add: getJiraIssues_def fetch_def)

lemma calls_getServiceNowIncidents:
  "calls (snd (getServiceNowIncidents cfg p w)) = calls w @ [sn_request cfg p]"
  by (simp add: getServiceNowIncidents_def fetch_def)

lemma jql_limit: "jql (a\<lparr>jira_args.limit := l\<rparr>) = jql a"
  by (simp add: jql_def jqlParts_clauses)

lemma sysparm_query_limit: "sysparm_query (p\<lparr>sn_params.limit := l\<rparr>) = sysparm_query p"
  by (simp add: sysparm_query_def queryParts_clauses)

lemma dec_small:
  "dec 0 = ''0''" "dec (Suc 0) = ''1''" "dec 3 = ''3''" "dec 5 = ''5''" "dec 12 = ''12''"
  by (simp_all add: dec.simps)

lemma Rep_safe_integer_Abs:
  "\<bar>i\<bar> < 9007199254740992 \<Longrightarrow> Rep_safe_integer (Abs_safe_integer i) = i"
  by (simp add: Abs_safe_integer_inverse)

lemma encode_project_clause: "encodeURIComponent ''project='' = ''project%3D''"
  by (simp add: encodeURIComponent_def encode_unit_def unreserved_def pct_def)

lemma encode_empty: "encodeURIComponent [] = []"
  by (simp add: encodeURIComponent_def)

lemma encode_project_MCP: "encodeURIComponent ''project=MCP'' = ''project%3DMCP''"
  by (simp add: encodeURIComponent_def encode_unit_def unreserved_def pct_def)

text \<open>
  C2, as amended. For both handlers the limit goes into the request as it is: absent,
  \<open>maxResults\<close> and \<open>sysparm_limit\<close> are 5; the limit 3 gives 3; and every other number
  the schema lets through is put into the URL as JavaScript prints it, which for an
  integer of magnitude below \<open>2^53\<close>, zero and the negative ones included, is its plain
  decimal form. Neither handler rejects a limit: whatever the limit, the handler makes
  its one network call and never fails with a validation error. (Strings here hold no
  surrogate code units, the one case in which URL encoding throws before the call.)
\<close>

theorem limit_translation:
  "url (jira_request cfg (a\<lparr>jira_args.limit := None\<rparr>))
     = ''https://'' @ JIRA_DOMAIN cfg @ ''/rest/api/3/search?jql=''
       @ encodeURIComponent (jql a) @ ''&maxResults=5''
   \<and> url (jira_request cfg (a\<lparr>jira_args.limit := Some (Integer (Abs_safe_integer 3))\<rparr>))
     = ''https://'' @ JIRA_DOMAIN cfg @ ''/rest/api/3/search?jql=''
       @ encodeURIComponent (jql a) @ ''&maxResults=3''
   \<and> (\<bar>n\<bar> < 9007199254740992 \<longrightarrow>
      url (jira_request cfg (a\<lparr>jira_args.limit := Some (Integer (Abs_safe_integer n))\<rparr>))
      = ''https://'' @ JIRA_DOMAIN cfg @ ''/rest/api/3/search?jql=''
        @ encodeURIComponent (jql a) @ ''&maxResults=''
        @ (if n < 0 then ''-'' @ dec (nat (- n)) else dec (nat n)))
   \<and> url (jira_request cfg (a\<lparr>jira_args.limit := Some (Inexact s)\<rparr>))
     = ''https://'' @ JIRA_DOMAIN cfg @ ''/rest/api/3/search?jql=''
       @ encodeURIComponent (jql a) @ ''&maxResults='' @ s
   \<and> url (sn_request cfg (p\<lparr>sn_params.limit := None\<rparr>))
     = ''https://'' @ SN_INSTANCE cfg
       @ ''.service-now.com/api/now/table/incident?sysparm_limit=5''
       @ ''&sysparm_query='' @ encodeURIComponent (sysparm_query p)
   \<and> url (sn_request cfg (p\<lparr>sn_params.limit := Some (Integer (Abs_safe_integer 3))\<rparr>))
     = ''https://'' @ SN_INSTANCE cfg
       @ ''.service-now.com/api/now/table/incident?sysparm_limit=3''
       @ ''&sysparm_query='' @ encodeURIComponent (sysparm_query p)
   \<and> (\<bar>n\<bar> < 9007199254740992 \<longrightarrow>
      url (sn_request cfg (p\<lparr>sn_params.limit := Some (Integer (Abs_safe_integer n))\<rparr>))
      = ''https://'' @ SN_INSTANCE cfg
        @ ''.service-now.com/api/now/table/incident?sysparm_limit=''
        @ (if n < 0 then ''-'' @ dec (nat (- n)) else dec (nat n))
        @ ''&sysparm_query='' @ encodeURIComponent (sysparm_query p))
   \<and> url (sn_request cfg (p\<lparr>sn_params.limit := Some (Inexact s)\<rparr>))
     = ''https://'' @ SN_INSTANCE cfg
       @ ''.service-now.com/api/now/table/incident?sysparm_limit='' @ s
       @ ''&sysparm_query='' @ encodeURIComponent (sysparm_query p)
   \<and> z_number_optional (Some (JNum x)) = Inr (Some x)
   \<and> z_number_optional None = Inr None
   \<and> calls (snd (getJiraIssues cfg a w)) = calls w @ [jira_request cfg a]
   \<and> fst (getJiraIssues cfg a w) \<noteq> Inl InvalidParams
   \<and> calls (snd (getServiceNowIncidents cfg p w)) = calls w @ [sn_request cfg p]
   \<and> fst (getServiceNowIncidents cfg p w) \<noteq> Inl InvalidParams"
proof -
  have j: "url (jira_request cfg (a\<lparr>jira_args.limit := l\<rparr>))
     = ''https://'' @ JIRA_DOMAIN cfg @ ''/rest/api/3/search?jql=''
       @ encodeURIComponent (jql a) @ ''&maxResults=''
       @ number_to_string
           (case l of None \<Rightarrow> Integer (Abs_safe_integer 5) | Some m \<Rightarrow> m)" for l
    by (simp add: jira_request_def jql_limit maxResults_def)
  have s: "url (sn_request cfg (p\<lparr>sn_params.limit := l\<rparr>))
     = ''https://'' @ SN_INSTANCE cfg
       @ ''.service-now.com/api/now/table/incident?sysparm_limit=''
       @ number_to_string
           (case l of None \<Rightarrow> Integer (Abs_safe_integer 5) | Some m \<Rightarrow> m)
       @ ''&sysparm_query='' @ encodeURIComponent (sysparm_query p)" for l
    by (simp add: sn_request_def sysparm_query_limit sysparm_limit_def)
  have z: "z_number_optional (Some (JNum x)) = Inr (Some x)" "z_number_optional None = Inr None"
    by (simp_all add: z_number_optional_def)
  show ?thesis
    using j [of None] j [of "Some (Integer (Abs_safe_integer 3))"]
      j [of "Some (Integer (Abs_safe_integer n))"]
      j [of "Some (Inexact s)"] s [of None] s [of "Some (Integer (Abs_safe_integer 3))"]
      s [of "Some (Integer (Abs_safe_integer n))"] s [of "Some (Inexact s)"]
      z calls_getJiraIssues [of cfg a w] getJiraIssues_not_InvalidParams [of cfg a w]
      calls_getServiceNowIncidents [of cfg p w]
      getServiceNowIncidents_not_InvalidParams [of cfg p w]
    by (simp add: dec_small Rep_safe_integer_Abs)
qed

theorem limit_translation_witness:
  "url (jira_request demo_config
         ((only_project ''MCP'')\<lparr>jira_args.limit := Some (Integer (Abs_safe_integer 0))\<rparr>))
     = ''https://example.atlassian.net/rest/api/3/search?jql=project%3DMCP&maxResults=0''
   \<and> url (sn_request demo_config
         (no_filters\<lparr>sn_params.limit := Some (Integer (Abs_safe_integer (- 12)))\<rparr>))
     = ''https://dev1.service-now.com/api/now/table/incident?sysparm_limit=-12&sysparm_query=''"
  using limit_translation [where n = 0 and cfg = demo_config and a = "only_project ''MCP''"]
    limit_translation [where n = "- 12" and cfg = demo_config and p = no_filters]
  by (simp add: demo_config_def jql_def jqlParts_def only_project_def sysparm_query_def
      queryParts_def no_filters_def opt_trim_def encode_project_MCP encode_empty dec_small
      Rep_safe_integer_Abs)

text \<open>
  C2 as stated fails: with the limit 0 the Jira tool does not fail; it calls the
  backend with \<open>maxResults=0\<close> and returns a text. With the limit -1 the ServiceNow tool
  calls the backend with \<open>sysparm_limit=-1\<close>.
\<close>

theorem limit_zero_accepted:
  "fst (call_get_jira_issues demo_config
          [(''project'', JStr ''MCP''), (''limit'', JNum (Integer (Abs_safe_integer 0)))]
          (answering \<lparr>ok = True, body = ''{\"issues\":[]}'',
                       parsed = Some (JObj [(''issues'', JArr [])])\<rparr>))
     = Inr (Text (Some (JStr ''No matching issues found.'')))
   \<and> map url (calls (snd (call_get_jira_issues demo_config
          [(''project'', JStr ''MCP''), (''limit'', JNum (Integer (Abs_safe_integer 0)))]
          (answering \<lparr>ok = True, body = ''{\"issues\":[]}'',
                       parsed = Some (JObj [(''issues'', JArr [])])\<rparr>))))
     = [''https://example.atlassian.net/rest/api/3/search?jql=project%3DMCP&maxResults=0'']
   \<and> fst (call_get_servicenow_incidents demo_config
          [(''limit'', JNum (Integer (Abs_safe_integer (- 1))))]
          (answering \<lparr>ok = True, body = ''{\"result\":[]}'',
                       parsed = Some (JObj [(''result'', JArr [])])\<rparr>))
     = Inr (Text (Some (JStr ''No incidents found.'')))
   \<and> map url (calls (snd (call_get_servicenow_incidents demo_config
          [(''limit'', JNum (Integer (Abs_safe_integer (- 1))))]
          (answering \<lparr>ok = True, body = ''{\"result\":[]}'',
                       parsed = Some (JObj [(''result'', JArr [])])\<rparr>))))
     = [''https://dev1.service-now.com/api/now/table/incident?sysparm_limit=-1&sysparm_query='']"
  by (simp add: call_get_jira_issues_def jira_schema_def call_get_servicenow_incidents_def
      sn_schema_def z_string_def z_string_optional_def z_number_optional_def and_then_def
      getJiraIssues_def getServiceNowIncidents_def fetch_def answering_def json_of_def
      array_map_def jira_request_def sn_request_def demo_config_def jql_def jqlParts_def
      sysparm_query_def queryParts_def opt_trim_def maxResults_def sysparm_limit_def
      dec_small encode_project_MCP encode_empty Rep_safe_integer_Abs)


lemma and_then_Inr:
  "(and_then r f = Inr y) = (\<exists>v. r = Inr v \<and> f v = Inr y)"
  by (cases r) (simp_all add: and_then_def)

lemma z_string_Inr: "(z_string v = Inr s) = (v = Some (JStr s))"
  by (simp add: z_string_def split: option.splits json.splits)

lemma z_string_Inl: "(\<forall>s. v \<noteq> Some (JStr s)) \<Longrightarrow> z_string v = Inl InvalidParams"
  by (simp add: z_string_def split: option.splits json.splits)

lemma jira_schema_only_project: "jira_schema [(''project'', JStr s)] = Inr (only_project s)"
  by (simp add: jira_schema_def and_then_def z_string_def z_string_optional_def
      z_number_optional_def only_project_def)

text \<open>
  C5, as amended. Before the Jira translator runs, the project is present and a
  string: an argument set whose project is missing (or is not a string) is rejected by
  the schema with no network call, and the handler and its translator never run on
  it. The schema asks no more: every string passes, the empty one included, and
  whether an argument set passes does not depend on what the project string holds.
  The handler runs on it, never rejects it, makes its call, and the first clause of
  the query is \<open>project=\<close> followed by the project as it was given. (The ServiceNow
  tool has no scope argument. Strings here hold no surrogate code units, the one
  case in which URL encoding throws before the call.)
\<close>

theorem project_required:
  "((\<forall>s. map_of raw ''project'' \<noteq> Some (JStr s)) \<longrightarrow>
      call_get_jira_issues cfg raw w = (Inl InvalidParams, w))
   \<and> (jira_schema raw = Inr a \<longrightarrow>
        map_of raw ''project'' = Some (JStr (project a))
        \<and> call_get_jira_issues cfg raw w = getJiraIssues cfg a w
        \<and> hd (jqlParts a) = ''project='' @ project a)
   \<and> jira_schema [(''project'', JStr s)] = Inr (only_project s)
   \<and> call_get_jira_issues cfg [(''project'', JStr s)] w = getJiraIssues cfg (only_project s) w
   \<and> jql (only_project s) = ''project='' @ s
   \<and> (jira_schema raw = Inr a \<and> map_of raw' ''project'' = Some (JStr s)
        \<and> (\<forall>k. k \<noteq> ''project'' \<longrightarrow> map_of raw' k = map_of raw k) \<longrightarrow>
        jira_schema raw' = Inr (a\<lparr>project := s\<rparr>))
   \<and> calls (snd (getJiraIssues cfg (only_project s) w))
       = calls w @ [jira_request cfg (only_project s)]
   \<and> fst (getJiraIssues cfg a w) \<noteq> Inl InvalidParams"
proof (intro conjI impI)
  assume "\<forall>s. map_of raw ''project'' \<noteq> Some (JStr s)"
  then have "jira_schema raw = Inl InvalidParams"
    by (simp add: jira_schema_def z_string_Inl and_then_def)
  then show "call_get_jira_issues cfg raw w = (Inl InvalidParams, w)"
    by (simp add: call_get_jira_issues_def)
next
  assume ok: "jira_schema raw = Inr a"
  then obtain s where s: "z_string (map_of raw ''project'') = Inr s" and "project a = s"
    by (auto simp: jira_schema_def and_then_Inr)
  then show "map_of raw ''project'' = Some (JStr (project a))"
    by (simp add: z_string_Inr)
  show "call_get_jira_issues cfg raw w = getJiraIssues cfg a w"
    using ok by (simp add: call_get_jira_issues_def)
  show "hd (jqlParts a) = ''project='' @ project a"
    by (simp add: jqlParts_clauses)
next
  show "jira_schema [(''project'', JStr s)] = Inr (only_project s)"
    by (rule jira_schema_only_project)
  show "call_get_jira_issues cfg [(''project'', JStr s)] w = getJiraIssues cfg (only_project s) w"
    by (simp add: call_get_jira_issues_def jira_schema_only_project)
  show "jql (only_project s) = ''project='' @ s"
    by (simp add: jql_def jqlParts_def only_project_def)
next
  assume h: "jira_schema raw = Inr a \<and> map_of raw' ''project'' = Some (JStr s)
    \<and> (\<forall>k. k \<noteq> ''project'' \<longrightarrow> map_of raw' k = map_of raw k)"
  then have same: "map_of raw' ''status'' = map_of raw ''status''"
    "map_of raw' ''summary'' = map_of raw ''summary''"
    "map_of raw' ''label'' = map_of raw ''label''"
    "map_of raw' ''assignee'' = map_of raw ''assignee''"
    "map_of raw' ''issueType'' = map_of raw ''issueType''"
    "map_of raw' ''limit'' = map_of raw ''limit''"
    by simp_all
  from h show "jira_schema raw' = Inr (a\<lparr>project := s\<rparr>)"
    by (auto simp: jira_schema_def and_then_Inr z_string_def same)
next
  show "calls (snd (getJiraIssues cfg (only_project s) w))
       = calls w @ [jira_request cfg (only_project s)]"
    by (rule calls_getJiraIssues)
  show "fst (getJiraIssues cfg a w) \<noteq> Inl InvalidParams"
    by (rule getJiraIssues_not_InvalidParams)
qed

theorem project_required_witness:
  "call_get_jira_issues demo_config [] (answering \<lparr>ok = True, body = [], parsed = None\<rparr>)
     = (Inl InvalidParams, answering \<lparr>ok = True, body = [], parsed = None\<rparr>)
   \<and> jira_schema [(''project'', JStr ''MCP'')] = Inr (only_project ''MCP'')
   \<and> map_of [(''project'', JStr ''MCP'')] ''project'' = Some (JStr ''MCP'')
   \<and> hd (jqlParts (only_project ''MCP'')) = ''project=MCP''
   \<and> jira_schema [(''project'', JStr [])] = Inr ((only_project ''MCP'')\<lparr>project := []\<rparr>)
   \<and> jql (only_project []) = ''project=''"
proof -
  have h: "jira_schema [(''project'', JStr ''MCP'')] = Inr (only_project ''MCP'')"
    by (rule jira_schema_only_project)
  show ?thesis
    using h
      project_required [of "[]" demo_config "answering \<lparr>ok = True, body = [], parsed = None\<rparr>"
        "only_project ''MCP''" "[]" "[]"]
      project_required [of "[(''project'', JStr ''MCP'')]" demo_config
        "answering \<lparr>ok = True, body = [], parsed = None\<rparr>" "only_project ''MCP''" "[]"
        "[(''project'', JStr [])]"]
    by (simp add: only_project_def)
qed

text \<open>
  C5 as stated fails: the empty project passes the schema, the translator builds
  \<open>project=\<close> from it and the handler sends that query to the backend.
\<close>

theorem empty_project_translated:
  "jira_schema [(''project'', JStr [])] = Inr (only_project [])
   \<and> jql (only_project []) = ''project=''
   \<and> map url (calls (snd (call_get_jira_issues demo_config [(''project'', JStr [])]
          (answering \<lparr>ok = True, body = ''{\"issues\":[]}'',
                       parsed = Some (JObj [(''issues'', JArr [])])\<rparr>))))
     = [''https://example.atlassian.net/rest/api/3/search?jql=project%3D&maxResults=5'']"
  by (simp add: call_get_jira_issues_def jira_schema_def z_string_def z_string_optional_def
      z_number_optional_def and_then_def only_project_def getJiraIssues_def fetch_def
      answering_def jira_request_def demo_config_def jql_def jqlParts_def maxResults_def
      dec_small encode_project_clause Rep_safe_integer_Abs)

text \<open>
  C4, as amended. When the one outbound call of the Jira or of the ServiceNow handler
  returns a non-success status, the handler fails with an error whose message is
  \<open>Jira error: \<close> or \<open>ServiceNow error: \<close> followed by the backend's raw body; the
  yo-momma handler fails with the fixed message \<open>Failed to fetch Yo Momma joke\<close>, which
  does not carry the body. In each case exactly one call has been made (no retry) and
  no text result is produced.
\<close>

theorem upstream_failure:
  "(respond w (jira_request cfg a) = Some r \<and> \<not> ok r \<longrightarrow>
      getJiraIssues cfg a w =
        (Inl (Error (''Jira error: '' @ body r)), w\<lparr>calls := calls w @ [jira_request cfg a]\<rparr>))
   \<and> (respond w (sn_request cfg p) = Some r \<and> \<not> ok r \<longrightarrow>
      getServiceNowIncidents cfg p w =
        (Inl (Error (''ServiceNow error: '' @ body r)),
         w\<lparr>calls := calls w @ [sn_request cfg p]\<rparr>))
   \<and> (respond w yo_momma_request = Some r \<and> \<not> ok r \<longrightarrow>
      getYoMommaJoke w =
        (Inl (Error ''Failed to fetch Yo Momma joke''),
         w\<lparr>calls := calls w @ [yo_momma_request]\<rparr>))"
  by (simp add: getJiraIssues_def getServiceNowIncidents_def getYoMommaJoke_def fetch_Some
      and_then_def)

theorem upstream_failure_witness:
  "getJiraIssues demo_config (only_project ''MCP'')
       (answering \<lparr>ok = False, body = ''Unauthorized'', parsed = None\<rparr>)
     = (Inl (Error ''Jira error: Unauthorized''),
        (answering \<lparr>ok = False, body = ''Unauthorized'', parsed = None\<rparr>)
          \<lparr>calls := [jira_request demo_config (only_project ''MCP'')]\<rparr>)
   \<and> getServiceNowIncidents demo_config no_filters
       (answering \<lparr>ok = False, body = ''Unauthorized'', parsed = None\<rparr>)
     = (Inl (Error ''ServiceNow error: Unauthorized''),
        (answering \<lparr>ok = False, body = ''Unauthorized'', parsed = None\<rparr>)
          \<lparr>calls := [sn_request demo_config no_filters]\<rparr>)
   \<and> getYoMommaJoke (answering \<lparr>ok = False, body = ''Unauthorized'', parsed = None\<rparr>)
     = (Inl (Error ''Failed to fetch Yo Momma joke''),
        (answering \<lparr>ok = False, body = ''Unauthorized'', parsed = None\<rparr>)
          \<lparr>calls := [yo_momma_request]\<rparr>)"
  using upstream_failure [of "answering \<lparr>ok = False, body = ''Unauthorized'', parsed = None\<rparr>"
      demo_config "only_project ''MCP''" "\<lparr>ok = False, body = ''Unauthorized'', parsed = None\<rparr>"
      no_filters]
  by (simp add: answering_def)

text \<open>
  C4 as stated fails. The Chuck Norris handler never looks at the status: on a
  non-success response whose body is JSON it returns a result. The yo-momma handler
  does fail, but its error does not carry the body.
\<close>

theorem status_unchecked:
  "fst (getChuckJoke (answering \<lparr>ok = False, body = ''{\"value\":\"down\"}'',
          parsed = Some (JObj [(''value'', JStr ''down'')])\<rparr>))
     = Inr (Text (Some (JStr ''down'')))
   \<and> fst (getChuckJoke (answering \<lparr>ok = False, body = ''{\"error\":\"Not Found\"}'',
          parsed = Some (JObj [(''error'', JStr ''Not Found'')])\<rparr>))
     = Inr (Text None)
   \<and> fst (getYoMommaJoke (answering \<lparr>ok = False, body = ''{\"error\":\"Not Found\"}'',
          parsed = Some (JObj [(''error'', JStr ''Not Found'')])\<rparr>))
     = Inl (Error ''Failed to fetch Yo Momma joke'')"
  by (simp add: getChuckJoke_def getYoMommaJoke_def fetch_def answering_def and_then_def
      json_of_def)


lemma join_nonempty:
  assumes "ls \<noteq> []" and "hd ls \<noteq> []"
  shows "join sep ls \<noteq> []"
proof (cases ls)
  case Nil
  with assms show ?thesis by simp
next
  case (Cons l ls')
  with assms show ?thesis by (cases ls') simp_all
qed

lemma issue_line_is_issue:
  assumes "is_issue i t"
  shows "issue_line i = Inr (issue_text t)"
proof -
  obtain k s n where t: "t = (k, s, n)" by (cases t) auto
  from assms t have key: "get_prop (Some i) ''key'' = Inr (Some (JStr k))"
    by (simp add: is_issue_def)
  from assms t obtain f where f: "get_prop (Some i) ''fields'' = Inr f"
    and summary: "get_prop f ''summary'' = Inr (Some (JStr s))"
    and rest: "(case get_prop f ''status'' of Inl e \<Rightarrow> False
                | Inr st \<Rightarrow> get_prop st ''name'' = Inr (Some (JStr n)))"
    by (cases "get_prop (Some i) ''fields''") (simp_all add: is_issue_def)
  from rest obtain st where st: "get_prop f ''status'' = Inr st"
    and name: "get_prop st ''name'' = Inr (Some (JStr n))"
    by (cases "get_prop f ''status''") simp_all
  show ?thesis
    by (simp add: issue_line_def and_then_def key f summary st name t issue_text_def)
qed

lemma incident_line_is_incident:
  "is_incident i t \<Longrightarrow> incident_line i = Inr (incident_text t)"
  by (cases t) (simp add: is_incident_def incident_line_def incident_text_def and_then_def)

lemma map_result_issues:
  "list_all2 is_issue xs ts \<Longrightarrow> map_result issue_line xs = Inr (map issue_text ts)"
  by (induction xs ts rule: list_all2_induct) (simp_all add: issue_line_is_issue and_then_def)

lemma map_result_incidents:
  "list_all2 is_incident xs ts \<Longrightarrow> map_result incident_line xs = Inr (map incident_text ts)"
  by (induction xs ts rule: list_all2_induct)
     (simp_all add: incident_line_is_incident and_then_def)

lemma join_issue_text: "(join sep (map issue_text ts) = []) = (ts = [])"
proof (cases ts)
  case Nil
  then show ?thesis by simp
next
  case (Cons t ts')
  have "hd (map issue_text ts) \<noteq> []"
    using Cons by (simp add: issue_text_def split: prod.splits)
  then show ?thesis
    using Cons join_nonempty [of "map issue_text ts" sep] by simp
qed

lemma join_incident_text: "(join sep (map incident_text ts) = []) = (ts = [])"
proof (cases ts)
  case Nil
  then show ?thesis by simp
next
  case (Cons t ts')
  have "hd (map incident_text ts) \<noteq> []"
    using Cons by (simp add: incident_text_def split: prod.splits)
  then show ?thesis
    using Cons join_nonempty [of "map incident_text ts" sep] by simp
qed

lemma getJiraIssues_text_nonempty:
  "fst (getJiraIssues cfg a w) \<noteq> Inr (Text (Some (JStr [])))"
  by (auto simp: getJiraIssues_def fetch_def and_then_Inr Let_def
      split: option.splits if_splits)

lemma getServiceNowIncidents_text_nonempty:
  "fst (getServiceNowIncidents cfg p w) \<noteq> Inr (Text (Some (JStr [])))"
  by (auto simp: getServiceNowIncidents_def fetch_def and_then_Inr Let_def
      split: option.splits if_splits)

text \<open>
  C8. On a successful response whose list is empty the Jira handler returns
  \<open>No matching issues found.\<close> and the ServiceNow handler returns \<open>No incidents found.\<close>;
  on a non-empty list each element yields its line, \<open>#<key>: <summary> [<status>]\<close> for
  Jira and \<open>#<number>: <short_description>\<close> for ServiceNow, and the lines are joined
  by newlines. Whatever the response, neither handler returns the empty string.
\<close>

theorem list_results:
  "(respond w (jira_request cfg a) = Some r \<and> ok r \<and> parsed r = Some d
      \<and> get_prop (Some d) ''issues'' = Inr (Some (JArr xs)) \<and> list_all2 is_issue xs ts \<longrightarrow>
      fst (getJiraIssues cfg a w) =
        Inr (Text (Some (JStr (if ts = [] then ''No matching issues found.''
                               else join ''\<newline>'' (map issue_text ts)))))
      \<and> (if ts = [] then ''No matching issues found.''
          else join ''\<newline>'' (map issue_text ts)) \<noteq> [])
   \<and> (respond w (sn_request cfg p) = Some r \<and> ok r \<and> parsed r = Some d
      \<and> get_prop (Some d) ''result'' = Inr (Some (JArr ys)) \<and> list_all2 is_incident ys us \<longrightarrow>
      fst (getServiceNowIncidents cfg p w) =
        Inr (Text (Some (JStr (if us = [] then ''No incidents found.''
                               else join ''\<newline>'' (map incident_text us)))))
      \<and> (if us = [] then ''No incidents found.''
          else join ''\<newline>'' (map incident_text us)) \<noteq> [])
   \<and> fst (getJiraIssues cfg a w) \<noteq> Inr (Text (Some (JStr [])))
   \<and> fst (getServiceNowIncidents cfg p w) \<noteq> Inr (Text (Some (JStr [])))"
proof (intro conjI impI; (elim conjE)?)
  assume "respond w (jira_request cfg a) = Some r" "ok r" "parsed r = Some d"
    "get_prop (Some d) ''issues'' = Inr (Some (JArr xs))" "list_all2 is_issue xs ts"
  then show "fst (getJiraIssues cfg a w) =
        Inr (Text (Some (JStr (if ts = [] then ''No matching issues found.''
                               else join ''\<newline>'' (map issue_text ts)))))"
    by (simp add: getJiraIssues_def fetch_Some and_then_def json_of_def array_map_def
        map_result_issues join_issue_text)
next
  assume "respond w (sn_request cfg p) = Some r" "ok r" "parsed r = Some d"
    "get_prop (Some d) ''result'' = Inr (Some (JArr ys))" "list_all2 is_incident ys us"
  then show "fst (getServiceNowIncidents cfg p w) =
        Inr (Text (Some (JStr (if us = [] then ''No incidents found.''
                               else join ''\<newline>'' (map incident_text us)))))"
    by (simp add: getServiceNowIncidents_def fetch_Some and_then_def json_of_def array_map_def
        map_result_incidents join_incident_text)
qed (simp_all add: join_issue_text join_incident_text getJiraIssues_text_nonempty
    getServiceNowIncidents_text_nonempty)

theorem list_results_witness:
  "fst (getJiraIssues demo_config (only_project ''MCP'')
          (answering \<lparr>ok = True, body = ''{\"issues\":[]}'',
                       parsed = Some (JObj [(''issues'', JArr [])])\<rparr>))
     = Inr (Text (Some (JStr ''No matching issues found.'')))
   \<and> fst (getServiceNowIncidents demo_config no_filters
          (answering \<lparr>ok = True, body = ''{\"result\":[]}'',
                       parsed = Some (JObj [(''result'', JArr [])])\<rparr>))
     = Inr (Text (Some (JStr ''No incidents found.'')))
   \<and> fst (getJiraIssues demo_config (only_project ''MCP'')
          (answering \<lparr>ok = True, body = [],
             parsed = Some (JObj [(''issues'', JArr
               [JObj [(''key'', JStr ''MCP-1''),
                      (''fields'', JObj [(''summary'', JStr ''Fix login''),
                                         (''status'', JObj [(''name'', JStr ''Done'')])])],
                JObj [(''key'', JStr ''MCP-2''),
                      (''fields'', JObj [(''summary'', JStr ''Add tests''),
                                         (''status'', JObj [(''name'', JStr ''To Do'')])])]])])\<rparr>))
     = Inr (Text (Some (JStr ''#MCP-1: Fix login [Done]\<newline>#MCP-2: Add tests [To Do]'')))
   \<and> fst (getServiceNowIncidents demo_config no_filters
          (answering \<lparr>ok = True, body = [],
             parsed = Some (JObj [(''result'', JArr
               [JObj [(''number'', JStr ''INC001''), (''short_description'', JStr ''disk full'')],
                JObj [(''number'', JStr ''INC002''), (''short_description'', JStr ''no mail'')]])])\<rparr>))
     = Inr (Text (Some (JStr ''#INC001: disk full\<newline>#INC002: no mail'')))"
  using
    list_results [of "answering \<lparr>ok = True, body = ''{\"issues\":[]}'',
                       parsed = Some (JObj [(''issues'', JArr [])])\<rparr>"
      demo_config "only_project ''MCP''"
      "\<lparr>ok = True, body = ''{\"issues\":[]}'', parsed = Some (JObj [(''issues'', JArr [])])\<rparr>"
      "JObj [(''issues'', JArr [])]" "[]" "[]"]
    list_results [of "answering \<lparr>ok = True, body = ''{\"result\":[]}'',
                       parsed = Some (JObj [(''result'', JArr [])])\<rparr>"
      demo_config _
      "\<lparr>ok = True, body = ''{\"result\":[]}'', parsed = Some (JObj [(''result'', JArr [])])\<rparr>"
      "JObj [(''result'', JArr [])]" _ _ no_filters "[]" "[]"]
    list_results [of "answering \<lparr>ok = True, body = [],
             parsed = Some (JObj [(''issues'', JArr
               [JObj [(''key'', JStr ''MCP-1''),
                      (''fields'', JObj [(''summary'', JStr ''Fix login''),
                                         (''status'', JObj [(''name'', JStr ''Done'')])])],
                JObj [(''key'', JStr ''MCP-2''),
                      (''fields'', JObj [(''summary'', JStr ''Add tests''),
                                         (''status'', JObj [(''name'', JStr ''To Do'')])])]])])\<rparr>"
      demo_config "only_project ''MCP''"
      "\<lparr>ok = True, body = [],
             parsed = Some (JObj [(''issues'', JArr
               [JObj [(''key'', JStr ''MCP-1''),
                      (''fields'', JObj [(''summary'', JStr ''Fix login''),
                                         (''status'', JObj [(''name'', JStr ''Done'')])])],
                JObj [(''key'', JStr ''MCP-2''),
                      (''fields'', JObj [(''summary'', JStr ''Add tests''),
                                         (''status'', JObj [(''name'', JStr ''To Do'')])])]])])\<rparr>"
      "JObj [(''issues'', JArr
               [JObj [(''key'', JStr ''MCP-1''),
                      (''fields'', JObj [(''summary'', JStr ''Fix login''),
                                         (''status'', JObj [(''name'', JStr ''Done'')])])],
                JObj [(''key'', JStr ''MCP-2''),
                      (''fields'', JObj [(''summary'', JStr ''Add tests''),
                                         (''status'', JObj [(''name'', JStr ''To Do'')])])]])]"
      "[JObj [(''key'', JStr ''MCP-1''),
                      (''fields'', JObj [(''summary'', JStr ''Fix login''),
                                         (''status'', JObj [(''name'', JStr ''Done'')])])],
                JObj [(''key'', JStr ''MCP-2''),
                      (''fields'', JObj [(''summary'', JStr ''Add tests''),
                                         (''status'', JObj [(''name'', JStr ''To Do'')])])]]"
      "[(''MCP-1'', ''Fix login'', ''Done''), (''MCP-2'', ''Add tests'', ''To Do'')]"]
    list_results [of "answering \<lparr>ok = True, body = [],
             parsed = Some (JObj [(''result'', JArr
               [JObj [(''number'', JStr ''INC001''), (''short_description'', JStr ''disk full'')],
                JObj [(''number'', JStr ''INC002''), (''short_description'', JStr ''no mail'')]])])\<rparr>"
      demo_config _
      "\<lparr>ok = True, body = [],
             parsed = Some (JObj [(''result'', JArr
               [JObj [(''number'', JStr ''INC001''), (''short_description'', JStr ''disk full'')],
                JObj [(''number'', JStr ''INC002''), (''short_description'', JStr ''no mail'')]])])\<rparr>"
      "JObj [(''result'', JArr
               [JObj [(''number'', JStr ''INC001''), (''short_description'', JStr ''disk full'')],
                JObj [(''number'', JStr ''INC002''), (''short_description'', JStr ''no mail'')]])]"
      _ _ no_filters
      "[JObj [(''number'', JStr ''INC001''), (''short_description'', JStr ''disk full'')],
        JObj [(''number'', JStr ''INC002''), (''short_description'', JStr ''no mail'')]]"
      "[(''INC001'', ''disk full''), (''INC002'', ''no mail'')]"]
  by (simp add: answering_def is_issue_def is_incident_def issue_text_def incident_text_def)


lemma to_string_JStr_list:
  "map ((\<lambda>x. if x = JNull then [] else to_string x) \<circ> JStr) cs = cs"
  by (induction cs) simp_all

text \<open>
  C9, as amended. On a response that parses, each tool that fetches one joke
  (\<open>get-chuck-joke\<close>, \<open>get-chuck-joke-by-category\<close>, \<open>get-dad-joke\<close>) returns the joke
  text as it is. The yo-momma tool, on a successful response, returns
  \<open>Category: <category>\<close>, a newline, and \<open>Joke: <joke>\<close>. The \<open>get-chuck-categories\<close>
  tool returns the category names joined by a comma and a space.
\<close>

theorem joke_texts:
  "(respond w chuck_joke_request = Some r \<and> parsed r = Some d
      \<and> get_prop (Some d) ''value'' = Inr (Some (JStr t)) \<longrightarrow>
      fst (getChuckJoke w) = Inr (Text (Some (JStr t))))
   \<and> (respond w (chuck_category_request c) = Some r \<and> parsed r = Some d
      \<and> get_prop (Some d) ''value'' = Inr (Some (JStr t)) \<longrightarrow>
      fst (getChuckJokeByCategory c w) = Inr (Text (Some (JStr t))))
   \<and> (respond w dad_joke_request = Some r \<and> parsed r = Some d
      \<and> get_prop (Some d) ''joke'' = Inr (Some (JStr t)) \<longrightarrow>
      fst (getDadJoke w) = Inr (Text (Some (JStr t))))
   \<and> (respond w yo_momma_request = Some r \<and> ok r \<and> parsed r = Some d
      \<and> get_prop (Some d) ''category'' = Inr (Some (JStr k))
      \<and> get_prop (Some d) ''joke'' = Inr (Some (JStr t)) \<longrightarrow>
      fst (getYoMommaJoke w) =
        Inr (Text (Some (JStr (''Category: '' @ k @ ''\<newline>Joke: '' @ t)))))
   \<and> (respond w chuck_categories_request = Some r \<and> parsed r = Some (JArr (map JStr cs)) \<longrightarrow>
      fst (getChuckCategories w) = Inr (Text (Some (JStr (join '', '' cs)))))"
  by (simp add: getChuckJoke_def getChuckJokeByCategory_def getDadJoke_def getYoMommaJoke_def
      getChuckCategories_def fetch_Some and_then_def json_of_def array_join_def
      to_string_JStr_list)

theorem joke_texts_witness:
  "fst (getChuckJoke (answering \<lparr>ok = True, body = [],
          parsed = Some (JObj [(''value'', JStr ''ha''), (''joke'', JStr ''ho''),
                               (''category'', JStr ''fat'')])\<rparr>))
     = Inr (Text (Some (JStr ''ha'')))
   \<and> fst (getChuckJokeByCategory ''dev'' (answering \<lparr>ok = True, body = [],
          parsed = Some (JObj [(''value'', JStr ''ha''), (''joke'', JStr ''ho''),
                               (''category'', JStr ''fat'')])\<rparr>))
     = Inr (Text (Some (JStr ''ha'')))
   \<and> fst (getDadJoke (answering \<lparr>ok = True, body = [],
          parsed = Some (JObj [(''value'', JStr ''ha''), (''joke'', JStr ''ho''),
                               (''category'', JStr ''fat'')])\<rparr>))
     = Inr (Text (Some (JStr ''ho'')))
   \<and> fst (getYoMommaJoke (answering \<lparr>ok = True, body = [],
          parsed = Some (JObj [(''value'', JStr ''ha''), (''joke'', JStr ''ho''),
                               (''category'', JStr ''fat'')])\<rparr>))
     = Inr (Text (Some (JStr ''Category: fat\<newline>Joke: ho'')))
   \<and> fst (getChuckCategories (answering \<lparr>ok = True, body = [],
          parsed = Some (JArr (map JStr [''animal'', ''dev'']))\<rparr>))
     = Inr (Text (Some (JStr ''animal, dev'')))"
  using
    joke_texts [of "answering \<lparr>ok = True, body = [],
          parsed = Some (JObj [(''value'', JStr ''ha''), (''joke'', JStr ''ho''),
                               (''category'', JStr ''fat'')])\<rparr>"
      "\<lparr>ok = True, body = [],
          parsed = Some (JObj [(''value'', JStr ''ha''), (''joke'', JStr ''ho''),
                               (''category'', JStr ''fat'')])\<rparr>"
      "JObj [(''value'', JStr ''ha''), (''joke'', JStr ''ho''), (''category'', JStr ''fat'')]"
      "''ha''" "''dev''"]
    joke_texts [of "answering \<lparr>ok = True, body = [],
          parsed = Some (JObj [(''value'', JStr ''ha''), (''joke'', JStr ''ho''),
                               (''category'', JStr ''fat'')])\<rparr>"
      "\<lparr>ok = True, body = [],
          parsed = Some (JObj [(''value'', JStr ''ha''), (''joke'', JStr ''ho''),
                               (''category'', JStr ''fat'')])\<rparr>"
      "JObj [(''value'', JStr ''ha''), (''joke'', JStr ''ho''), (''category'', JStr ''fat'')]"
      "''ho''" "''dev''" "''fat''"]
    joke_texts [of "answering \<lparr>ok = True, body = [],
          parsed = Some (JArr (map JStr [''animal'', ''dev'']))\<rparr>"
      "\<lparr>ok = True, body = [], parsed = Some (JArr (map JStr [''animal'', ''dev'']))\<rparr>"
      _ _ _ _ "[''animal'', ''dev'']"]
  by (simp add: answering_def)

text \<open>
  C9 as stated fails for the yo-momma tool: for the category \<open>fat\<close> and the joke \<open>ho\<close>
  its text is \<open>Category: fat\<close>, a newline, \<open>Joke: ho\<close>, and not \<open>fat: ho\<close>.
\<close>

theorem yo_momma_format:
  "fst (getYoMommaJoke (answering \<lparr>ok = True, body = ''{\"category\":\"fat\",\"joke\":\"ho\"}'',
          parsed = Some (JObj [(''category'', JStr ''fat''), (''joke'', JStr ''ho'')])\<rparr>))
     = Inr (Text (Some (JStr ''Category: fat\<newline>Joke: ho'')))
   \<and> fst (getYoMommaJoke (answering \<lparr>ok = True, body = ''{\"category\":\"fat\",\"joke\":\"ho\"}'',
          parsed = Some (JObj [(''category'', JStr ''fat''), (''joke'', JStr ''ho'')])\<rparr>))
     \<noteq> Inr (Text (Some (JStr ''fat: ho'')))"
  by (simp add: getYoMommaJoke_def fetch_def answering_def and_then_def json_of_def)


end
